theory Spec2Isabelle
  imports Complex_Main "HOL-Library.Char_ord"
begin

section \<open>Tokens and errors\<close>

text \<open>
  The lexer (\<^verbatim>\<open>lexer.ts\<close>) and the parser (\<^verbatim>\<open>parser.ts\<close>) of Pashto++ are embedded
  function by function. A JavaScript string is a \<open>string\<close>; its characters are the
  8-bit characters of HOL (code units up to \<open>0xFF\<close>). Every \<^verbatim>\<open>throw new Error(...)\<close>
  is a value of \<open>error\<close>: the lexer's are \<open>LexicalError\<close>, the parser's are
  \<open>SyntaxError\<close>, each with the text before \<^verbatim>\<open>at line\<close> and the line and column the
  message carries. Reading a property of \<^verbatim>\<open>undefined\<close> (a token index out of range)
  is \<open>TypeError\<close>.
\<close>

datatype TokenType = NUMBER | STRING | IDENTIFIER | KEYWORD | OPERATOR | PUNCTUATION | EOF

record Token =
  tok_type :: TokenType
  tok_value :: string
  tok_line :: nat
  tok_column :: nat

datatype error =
    LexicalError string nat nat
  | SyntaxError string nat nat
  | TypeError
  | OutOfFuel

definition KEYWORDS :: "string list" where
  "KEYWORDS = [''ko'', ''geni'', ''kala'', ''che'', ''we'', ''opejana'', ''raka'',
               ''olika'', ''oghwara'', ''rishtia'', ''ghalat'']"

definition OPERATORS :: "string list" where
  "OPERATORS = [''+'', ''jama'', ''-'', ''manfi'', ''*'', ''zarab'', ''/'', ''takseem'',
                ''%'', ''takseembaki'', ''_'', ''=='', ''!='', ''>'', ''<'', ''>='', ''<='',
                ''='']"

section \<open>Character classes\<close>

definition newline :: char where
  "newline = CHR 0x0A"

definition quote1 :: char where
  "quote1 = CHR 0x27"

definition quote2 :: char where
  "quote2 = CHR 0x22"

text \<open>\<^verbatim>\<open>/\s/\<close> on 8-bit characters: tab, line feed, vertical tab, form feed, carriage
  return, space and the no-break space.\<close>

definition isSpace :: "char \<Rightarrow> bool" where
  "isSpace c = ((CHR 0x09 \<le> c \<and> c \<le> CHR 0x0D) \<or> c = CHR 0x20 \<or> c = CHR 0xA0)"

text \<open>\<^verbatim>\<open>/[0-9]/\<close>, \<^verbatim>\<open>/[a-zA-Z_]/\<close> and \<^verbatim>\<open>/[a-zA-Z0-9_]/\<close>.\<close>

definition isDigit :: "char \<Rightarrow> bool" where
  "isDigit c = (CHR ''0'' \<le> c \<and> c \<le> CHR ''9'')"

definition isIdentStart :: "char \<Rightarrow> bool" where
  "isIdentStart c =
     ((CHR ''a'' \<le> c \<and> c \<le> CHR ''z'') \<or> (CHR ''A'' \<le> c \<and> c \<le> CHR ''Z'') \<or> c = CHR ''_'')"

definition isIdentChar :: "char \<Rightarrow> bool" where
  "isIdentChar c = (isIdentStart c \<or> isDigit c)"

text \<open>\<^verbatim>\<open>String.prototype.toLowerCase\<close>, character by character: the upper-case
  letters of ASCII and of Latin-1 move to their lower-case letters, every other 8-bit
  character stays.\<close>

definition upperChars :: string where
  "upperChars = ''ABCDEFGHIJKLMNOPQRSTUVWXYZ'' @
     [CHR 0xC0, CHR 0xC1, CHR 0xC2, CHR 0xC3, CHR 0xC4, CHR 0xC5, CHR 0xC6, CHR 0xC7,
      CHR 0xC8, CHR 0xC9, CHR 0xCA, CHR 0xCB, CHR 0xCC, CHR 0xCD, CHR 0xCE, CHR 0xCF,
      CHR 0xD0, CHR 0xD1, CHR 0xD2, CHR 0xD3, CHR 0xD4, CHR 0xD5, CHR 0xD6,
      CHR 0xD8, CHR 0xD9, CHR 0xDA, CHR 0xDB, CHR 0xDC, CHR 0xDD, CHR 0xDE]"

definition lowerChars :: string where
  "lowerChars = ''abcdefghijklmnopqrstuvwxyz'' @
     [CHR 0xE0, CHR 0xE1, CHR 0xE2, CHR 0xE3, CHR 0xE4, CHR 0xE5, CHR 0xE6, CHR 0xE7,
      CHR 0xE8, CHR 0xE9, CHR 0xEA, CHR 0xEB, CHR 0xEC, CHR 0xED, CHR 0xEE, CHR 0xEF,
      CHR 0xF0, CHR 0xF1, CHR 0xF2, CHR 0xF3, CHR 0xF4, CHR 0xF5, CHR 0xF6,
      CHR 0xF8, CHR 0xF9, CHR 0xFA, CHR 0xFB, CHR 0xFC, CHR 0xFD, CHR 0xFE]"

definition toLowerChar :: "char \<Rightarrow> char" where
  "toLowerChar c = (case map_of (zip upperChars lowerChars) c of Some l \<Rightarrow> l | None \<Rightarrow> c)"

definition toLowerCase :: "string \<Rightarrow> string" where
  "toLowerCase s = map toLowerChar s"

section \<open>The lexer\<close>

record Lexer =
  code :: string
  position :: nat
  line :: nat
  column :: nat
  currentChar :: "char option"

definition Lexer_new :: "string \<Rightarrow> Lexer" where
  "Lexer_new c =
     \<lparr>code = c, position = 0, line = 1, column = 1,
      currentChar = (if length c > 0 then Some (c ! 0) else None)\<rparr>"

definition advance :: "Lexer \<Rightarrow> Lexer" where
  "advance L =
     (let L1 = L\<lparr>position := position L + 1, column := column L + 1\<rparr> in
      if position L1 \<ge> length (code L1) then L1\<lparr>currentChar := None\<rparr>
      else
        (let L2 = L1\<lparr>currentChar := Some (code L1 ! position L1)\<rparr> in
         if currentChar L2 = Some newline then L2\<lparr>line := line L2 + 1, column := 1\<rparr>
         else L2))"

definition peek :: "Lexer \<Rightarrow> char option" where
  "peek L =
     (let peekPos = position L + 1 in
      if peekPos \<ge> length (code L) then None else Some (code L ! peekPos))"

definition remaining :: "Lexer \<Rightarrow> nat" where
  "remaining L = (length (code L) - position L) + (if currentChar L = None then 0 else 1)"

lemma remaining_advance_le: "remaining (advance L) \<le> remaining L"
  by (auto simp: remaining_def advance_def Let_def)

lemma remaining_advance_less: "currentChar L \<noteq> None \<Longrightarrow> remaining (advance L) < remaining L"
  by (auto simp: remaining_def advance_def Let_def)

text \<open>The loops of the lexer all have one shape: while the current character is there
  and passes a test, append it to \<open>result\<close> and advance.\<close>

function scanWhile :: "(char \<Rightarrow> bool) \<Rightarrow> string \<Rightarrow> Lexer \<Rightarrow> string \<times> Lexer" where
  "scanWhile p result L =
     (case currentChar L of
        None \<Rightarrow> (result, L)
      | Some c \<Rightarrow> if p c then scanWhile p (result @ [c]) (advance L) else (result, L))"
  by pat_completeness auto
termination
  by (relation "measure (\<lambda>(p, r, L). remaining L)") (auto intro: remaining_advance_less)

declare scanWhile.simps [simp del]

definition skipWhitespace :: "Lexer \<Rightarrow> Lexer" where
  "skipWhitespace L = snd (scanWhile isSpace [] L)"

definition skipComment :: "Lexer \<Rightarrow> Lexer" where
  "skipComment L =
     (if currentChar L = Some (CHR ''/'') \<and> peek L = Some (CHR ''/'') then
        (let L1 = snd (scanWhile (\<lambda>c. c \<noteq> newline) [] L) in
         if currentChar L1 = Some newline then advance L1 else L1)
      else L)"

definition number :: "Lexer \<Rightarrow> Token \<times> Lexer" where
  "number L =
     (let startColumn = column L;
          (r1, L1) = scanWhile isDigit [] L;
          (r2, L2) = (if currentChar L1 = Some (CHR ''.'')
                      then scanWhile isDigit (r1 @ ''.'') (advance L1) else (r1, L1))
      in (\<lparr>tok_type = NUMBER, tok_value = r2, tok_line = line L2, tok_column = startColumn\<rparr>,
          L2))"

definition string_tok :: "Lexer \<Rightarrow> error + (Token \<times> Lexer)" where
  "string_tok L =
     (let startColumn = column L;
          quote = currentChar L;
          (result, L1) = scanWhile (\<lambda>c. Some c \<noteq> quote) [] (advance L)
      in if currentChar L1 = quote then
           (let L2 = advance L1 in
            Inr (\<lparr>tok_type = STRING, tok_value = result, tok_line = line L2,
                  tok_column = startColumn\<rparr>, L2))
         else Inl (LexicalError ''Unterminated string'' (line L1) startColumn))"

definition identifier_tok :: "Lexer \<Rightarrow> Token \<times> Lexer" where
  "identifier_tok L =
     (let startColumn = column L;
          (result, L1) = scanWhile isIdentChar [] L;
          lowerResult = toLowerCase result
      in if lowerResult \<in> set KEYWORDS then
           (\<lparr>tok_type = KEYWORD, tok_value = lowerResult, tok_line = line L1,
             tok_column = startColumn\<rparr>, L1)
         else if lowerResult \<in> set OPERATORS then
           (\<lparr>tok_type = OPERATOR, tok_value = lowerResult, tok_line = line L1,
             tok_column = startColumn\<rparr>, L1)
         else
           (\<lparr>tok_type = IDENTIFIER, tok_value = result, tok_line = line L1,
             tok_column = startColumn\<rparr>, L1))"

definition operator :: "Lexer \<Rightarrow> Token \<times> Lexer" where
  "operator L =
     (let startColumn = column L;
          v = (case currentChar L of None \<Rightarrow> [] | Some c \<Rightarrow> [c]);
          L1 = advance L;
          (v2, L2) =
            (if (v = ''='' \<and> currentChar L1 = Some (CHR ''='')) \<or>
                (v = ''!'' \<and> currentChar L1 = Some (CHR ''='')) \<or>
                (v = ''>'' \<and> currentChar L1 = Some (CHR ''='')) \<or>
                (v = ''<'' \<and> currentChar L1 = Some (CHR ''=''))
             then (v @ ''='', advance L1) else (v, L1))
      in (\<lparr>tok_type = OPERATOR, tok_value = v2, tok_line = line L2, tok_column = startColumn\<rparr>,
          L2))"

definition punctuation :: string where
  "punctuation = ''(){}[],.;''"

lemma remaining_scanWhile_le: "remaining (snd (scanWhile p r L)) \<le> remaining L"
proof (induction p r L rule: scanWhile.induct)
  case (1 p result L)
  show ?case
  proof (cases "currentChar L")
    case None
    then show ?thesis by (simp add: scanWhile.simps [of p result L])
  next
    case (Some c)
    show ?thesis
    proof (cases "p c")
      case True
      have "remaining (snd (scanWhile p (result @ [c]) (advance L))) \<le> remaining (advance L)"
        using "1.IH" Some True by simp
      also have "\<dots> \<le> remaining L" by (rule remaining_advance_le)
      finally show ?thesis using Some True by (simp add: scanWhile.simps [of p result L])
    next
      case False
      then show ?thesis using Some by (simp add: scanWhile.simps [of p result L])
    qed
  qed
qed

lemma remaining_scanWhile_less:
  assumes "currentChar L = Some c" "p c"
  shows "remaining (snd (scanWhile p r L)) < remaining L"
proof -
  have "remaining (snd (scanWhile p (r @ [c]) (advance L))) \<le> remaining (advance L)"
    by (rule remaining_scanWhile_le)
  also have "\<dots> < remaining L" using assms by (simp add: remaining_advance_less)
  finally show ?thesis using assms by (simp add: scanWhile.simps [of p r L])
qed

lemma remaining_skipWhitespace:
  "currentChar L = Some c \<Longrightarrow> isSpace c \<Longrightarrow> remaining (skipWhitespace L) < remaining L"
  unfolding skipWhitespace_def by (rule remaining_scanWhile_less)

lemma remaining_skipComment:
  assumes "currentChar L = Some (CHR ''/'')" "peek L = Some (CHR ''/'')"
  shows "remaining (skipComment L) < remaining L"
proof -
  let ?L1 = "snd (scanWhile (\<lambda>c. c \<noteq> newline) [] L)"
  have less: "remaining ?L1 < remaining L"
    using assms(1) by (rule remaining_scanWhile_less) (simp add: newline_def)
  have "remaining (advance ?L1) \<le> remaining ?L1" by (rule remaining_advance_le)
  with less show ?thesis using assms by (simp add: skipComment_def Let_def)
qed

function getNextToken :: "Lexer \<Rightarrow> error + (Token \<times> Lexer)" where
  "getNextToken L =
     (case currentChar L of
        None \<Rightarrow>
          Inr (\<lparr>tok_type = EOF, tok_value = [], tok_line = line L, tok_column = column L\<rparr>, L)
      | Some c \<Rightarrow>
          if isSpace c then getNextToken (skipWhitespace L)
          else if c = CHR ''/'' \<and> peek L = Some (CHR ''/'') then getNextToken (skipComment L)
          else if isDigit c then Inr (number L)
          else if c = quote2 \<or> c = quote1 then string_tok L
          else if isIdentStart c then Inr (identifier_tok L)
          else if [c] \<in> set OPERATORS \<or> c = CHR ''='' \<or> c = CHR ''!'' \<or> c = CHR ''>'' \<or>
                  c = CHR ''<'' then Inr (operator L)
          else if c \<in> set punctuation then
            Inr (\<lparr>tok_type = PUNCTUATION, tok_value = [c], tok_line = line L,
                  tok_column = column L\<rparr>, advance L)
          else Inl (LexicalError (''Unexpected character '' @ [quote1, c, quote1])
                      (line L) (column L)))"
  by pat_completeness auto
termination
  by (relation "measure remaining")
     (auto intro: remaining_skipWhitespace remaining_skipComment)

declare getNextToken.simps [simp del]

lemma remaining_number:
  assumes "currentChar L = Some c" "isDigit c"
  shows "remaining (snd (number L)) < remaining L"
proof -
  let ?L1 = "snd (scanWhile isDigit [] L)"
  have less: "remaining ?L1 < remaining L"
    using assms by (rule remaining_scanWhile_less)
  have "remaining (snd (scanWhile isDigit r (advance ?L1))) \<le> remaining ?L1" for r
    using remaining_scanWhile_le [of isDigit r "advance ?L1"] remaining_advance_le [of ?L1]
    by simp
  with less show ?thesis
    by (auto simp: number_def Let_def split: prod.splits if_splits)
       (metis less_le_trans not_le snd_conv order.strict_trans2)+
qed

lemma remaining_string_tok:
  assumes "currentChar L = Some c" "string_tok L = Inr (tok, L')"
  shows "remaining L' < remaining L"
proof -
  let ?L1 = "snd (scanWhile (\<lambda>c. Some c \<noteq> currentChar L) [] (advance L))"
  have "remaining ?L1 \<le> remaining (advance L)" by (rule remaining_scanWhile_le)
  also have "\<dots> < remaining L" using assms(1) by (simp add: remaining_advance_less)
  finally have less: "remaining ?L1 < remaining L" .
  have "remaining (advance ?L1) \<le> remaining ?L1" by (rule remaining_advance_le)
  with less have "remaining (advance ?L1) < remaining L" by simp
  moreover have "L' = advance ?L1"
    using assms(2) by (auto simp: string_tok_def Let_def split: prod.splits if_splits)
  ultimately show ?thesis by simp
qed

lemma remaining_identifier_tok:
  assumes "currentChar L = Some c" "isIdentStart c"
  shows "remaining (snd (identifier_tok L)) < remaining L"
proof -
  have "remaining (snd (scanWhile isIdentChar [] L)) < remaining L"
    using assms by (intro remaining_scanWhile_less [of L c]) (simp_all add: isIdentChar_def)
  then show ?thesis
    by (auto simp: identifier_tok_def Let_def split: prod.splits)
qed

lemma remaining_operator:
  assumes "currentChar L = Some c"
  shows "remaining (snd (operator L)) < remaining L"
proof -
  have less: "remaining (advance L) < remaining L"
    using assms by (simp add: remaining_advance_less)
  have "remaining (advance (advance L)) \<le> remaining (advance L)"
    by (rule remaining_advance_le)
  with less have "remaining (advance (advance L)) < remaining L" by simp
  with less show ?thesis
    by (auto simp: operator_def Let_def split: prod.splits if_splits)
qed

lemma remaining_getNextToken:
  "getNextToken L = Inr (tok, L') \<Longrightarrow> tok_type tok \<noteq> EOF \<Longrightarrow> remaining L' < remaining L"
proof (induction L rule: getNextToken.induct)
  case (1 L)
  show ?case
  proof (cases "currentChar L")
    case None
    with "1.prems" show ?thesis by (auto simp: getNextToken.simps [of L])
  next
    case (Some c)
    consider (ws) "isSpace c"
      | (cm) "\<not> isSpace c" "c = CHR ''/'' \<and> peek L = Some (CHR ''/'')"
      | (other) "\<not> isSpace c" "\<not> (c = CHR ''/'' \<and> peek L = Some (CHR ''/''))"
      by blast
    then show ?thesis
    proof cases
      case ws
      then have "getNextToken (skipWhitespace L) = Inr (tok, L')"
        using "1.prems"(1) Some by (simp add: getNextToken.simps [of L])
      then have "remaining L' < remaining (skipWhitespace L)"
        using "1.IH"(1) Some ws "1.prems"(2) by simp
      also have "\<dots> < remaining L" using Some ws by (rule remaining_skipWhitespace)
      finally show ?thesis .
    next
      case cm
      then have "getNextToken (skipComment L) = Inr (tok, L')"
        using "1.prems"(1) Some by (simp add: getNextToken.simps [of L])
      then have "remaining L' < remaining (skipComment L)"
        using "1.IH"(2) Some cm "1.prems"(2) by simp
      also have "\<dots> < remaining L" using Some cm by (intro remaining_skipComment) simp_all
      finally show ?thesis .
    next
      case other
      show ?thesis
        using "1.prems" Some other
          remaining_number [of L c] remaining_string_tok [of L c tok L']
          remaining_identifier_tok [of L c] remaining_operator [of L c]
          remaining_advance_less [of L]
        by (auto simp: getNextToken.simps [of L] split: if_splits)
    qed
  qed
qed

function tokenize_loop :: "Lexer \<Rightarrow> Token list \<Rightarrow> error + Token list" where
  "tokenize_loop L tokens =
     (case getNextToken L of
        Inl e \<Rightarrow> Inl e
      | Inr (token, L') \<Rightarrow>
          if tok_type token \<noteq> EOF then tokenize_loop L' (tokens @ [token])
          else Inr (tokens @ [token]))"
  by pat_completeness auto
termination
  by (relation "measure (\<lambda>(L, tokens). remaining L)") (auto intro: remaining_getNextToken)

declare tokenize_loop.simps [simp del]

definition tokenize :: "string \<Rightarrow> error + Token list" where
  "tokenize c = tokenize_loop (Lexer_new c) []"

text \<open>The lexer keeps \<open>currentChar\<close> equal to the character at \<open>position\<close>, or to
  \<^verbatim>\<open>null\<close> past the end of the code.\<close>

definition lexer_ok :: "Lexer \<Rightarrow> bool" where
  "lexer_ok L =
     (currentChar L = (if position L < length (code L) then Some (code L ! position L) else None))"

section \<open>The syntax tree\<close>

text \<open>Every node carries the line and the column of a token; they are the last two
  arguments of each constructor. A JavaScript number is \<open>number\<close>: a 64-bit float is
  the rational it stands for, \<open>Infinity\<close> or \<open>NaN\<close> (the parser makes no negative
  number and no negative zero).\<close>

datatype number = Finite rat | Infinity | NaN

text \<open>\<open>toDouble a b\<close> is the 64-bit float nearest to the fraction \<open>a / b\<close> of two
  positive integers, ties going to the even significand: \<open>e\<close> is the binary exponent of
  the fraction, raised to \<open>- 1022\<close> for the subnormal numbers; a significand has 53
  bits, so the floats of that exponent are the multiples of \<open>ulp\<close>; and a fraction
  that rounds to \<open>2 ^ 1024\<close> or more is \<open>Infinity\<close>.\<close>

function bitLength :: "int \<Rightarrow> int" where
  "bitLength n = (if n \<le> 0 then 0 else 1 + bitLength (n div 2))"
  by pat_completeness auto
termination
  by (relation "measure nat") auto

declare bitLength.simps [simp del]

definition pow2 :: "int \<Rightarrow> rat" where
  "pow2 e = (if 0 \<le> e then 2 ^ nat e else 1 / 2 ^ nat (- e))"

definition roundHalfEven :: "rat \<Rightarrow> int" where
  "roundHalfEven x =
     (let f = \<lfloor>x\<rfloor>; r = x - of_int f in
      if r < 1 / 2 then f else if 1 / 2 < r then f + 1 else if even f then f else f + 1)"

definition toDouble :: "int \<Rightarrow> int \<Rightarrow> number" where
  "toDouble a b =
     (if a = 0 then Finite 0
      else
        (let q = of_int a / of_int b;
             d = bitLength a - bitLength b;
             e = (if pow2 d \<le> q then d else d - 1);
             ulp = pow2 (max e (- 1022) - 52);
             v = of_int (roundHalfEven (q / ulp)) * ulp
         in if pow2 1024 \<le> v then Infinity else Finite v))"

text \<open>\<^verbatim>\<open>parseFloat\<close> on the values the lexer gives a \<open>NUMBER\<close> token (digits, then
  possibly a dot and digits): the float nearest to the decimal value. A text that starts
  with neither a digit nor a dot and a digit gives \<open>NaN\<close>; signs, exponents and leading
  white space, which \<^verbatim>\<open>parseFloat\<close> also reads, do not occur in those values.\<close>

definition digitsValue :: "string \<Rightarrow> int" where
  "digitsValue s = foldl (\<lambda>a c. 10 * a + (of_char c - 48)) 0 s"

definition parseFloat :: "string \<Rightarrow> number" where
  "parseFloat s =
     (let ip = takeWhile isDigit s;
          fp = (case dropWhile isDigit s of
                  [] \<Rightarrow> []
                | c # fs \<Rightarrow> if c = CHR ''.'' then takeWhile isDigit fs else [])
      in if ip = [] \<and> fp = [] then NaN
         else toDouble (digitsValue (ip @ fp)) (10 ^ length fp))"

datatype Expression =
    NumericLiteral number nat nat
  | StringLiteral string nat nat
  | BooleanLiteral bool nat nat
  | Identifier string nat nat
  | BinaryExpression string Expression Expression nat nat
  | AssignmentExpression Expression Expression nat nat
  | CallExpression Expression "Expression list" nat nat
  | ArrayLiteral "Expression list" nat nat

datatype Statement =
    FunctionDeclaration string "string list" Statement nat nat
  | IfStatement Expression Statement "Statement option" nat nat
  | WhileStatement Expression Statement nat nat
  | ForStatement string Expression Statement nat nat
  | ReturnStatement "Expression option" nat nat
  | BlockStatement "Statement list" nat nat
  | ExpressionStatement Expression nat nat

datatype Program = Program "Statement list" nat nat

text \<open>\<^verbatim>\<open>expr.type === NodeType.Identifier\<close>.\<close>

fun isIdentifier :: "Expression \<Rightarrow> bool" where
  "isIdentifier (Identifier name l c) = True"
| "isIdentifier e = False"

text \<open>The operator table of the parser. The parsing methods do not read it.\<close>

definition PRECEDENCE :: "(string \<times> nat) list" where
  "PRECEDENCE =
     [(''='', 1), (''=='', 2), (''!='', 2), (''<'', 3), (''>'', 3), (''<='', 3), (''>='', 3),
      (''+'', 4), (''jama'', 4), (''-'', 4), (''manfi'', 4), (''_'', 4),
      (''*'', 5), (''zarab'', 5), (''/'', 5), (''takseem'', 5), (''%'', 5),
      (''takseembaki'', 5)]"

section \<open>The parser's token cursor\<close>

text \<open>The parser's state is the index \<open>current\<close> into the token array, which never
  changes. A method that can throw returns \<open>error + result\<close>; a method that moves
  the cursor returns the new index beside its result. \<open>bind\<close> runs the next step on a
  result and passes an error on, as an exception does.\<close>

definition bind :: "error + 'a \<Rightarrow> ('a \<Rightarrow> error + 'b) \<Rightarrow> error + 'b" where
  "bind m f = (case m of Inl e \<Rightarrow> Inl e | Inr x \<Rightarrow> f x)"

lemma bind_Inl [simp]: "bind (Inl e) f = Inl e"
  by (simp add: bind_def)

lemma bind_Inr [simp]: "bind (Inr x) f = f x"
  by (simp add: bind_def)

lemma bind_weak_cong [cong]: "m = m' \<Longrightarrow> bind m f = bind m' f"
  by simp

text \<open>\<^verbatim>\<open>this.tokens[i]\<close>: out of range the array gives \<^verbatim>\<open>undefined\<close>, which is
  \<open>None\<close>. Nothing is thrown then; reading a property of \<^verbatim>\<open>undefined\<close> later
  throws a TypeError, and \<open>readToken\<close> stands wherever the source reads a property
  (\<^verbatim>\<open>.type\<close>, \<^verbatim>\<open>.value\<close>, \<^verbatim>\<open>.line\<close>, \<^verbatim>\<open>.column\<close>) of a token.\<close>

definition tokenAt :: "Token list \<Rightarrow> nat \<Rightarrow> Token option" where
  "tokenAt ts i = (if i < length ts then Some (ts ! i) else None)"

definition readToken :: "Token option \<Rightarrow> error + Token" where
  "readToken t = (case t of None \<Rightarrow> Inl TypeError | Some tok \<Rightarrow> Inr tok)"

definition Parser_peek :: "Token list \<Rightarrow> nat \<Rightarrow> Token option" where
  "Parser_peek ts current = tokenAt ts current"

definition Parser_previous :: "Token list \<Rightarrow> nat \<Rightarrow> Token option" where
  "Parser_previous ts current = (if current = 0 then None else tokenAt ts (current - 1))"

definition isAtEnd :: "Token list \<Rightarrow> nat \<Rightarrow> error + bool" where
  "isAtEnd ts current =
     bind (readToken (Parser_peek ts current)) (\<lambda>t. Inr (tok_type t = EOF))"

text \<open>\<open>Parser_advance\<close> gives the new index; the token that \<^verbatim>\<open>advance()\<close> returns is
  \<open>Parser_previous\<close> there.\<close>

definition Parser_advance :: "Token list \<Rightarrow> nat \<Rightarrow> error + nat" where
  "Parser_advance ts current =
     bind (isAtEnd ts current) (\<lambda>e. Inr (if e then current else current + 1))"

text \<open>\<^verbatim>\<open>check(type, value?)\<close>: the optional value is an \<open>option\<close>; an empty string is
  falsy in \<^verbatim>\<open>if (value)\<close>. The \<^verbatim>\<open>&&\<close> of the two comparisons is an \<open>if\<close>: the
  values are compared only when the types agree.\<close>

definition check :: "Token list \<Rightarrow> nat \<Rightarrow> TokenType \<Rightarrow> string option \<Rightarrow> error + bool" where
  "check ts current ty vo =
     bind (isAtEnd ts current) (\<lambda>e.
       if e then Inr False
       else bind (readToken (Parser_peek ts current)) (\<lambda>t.
         case vo of
           None \<Rightarrow> Inr (tok_type t = ty)
         | Some v \<Rightarrow>
             if v \<noteq> [] then
               (if tok_type t = ty then Inr (toLowerCase (tok_value t) = toLowerCase v)
                else Inr False)
             else Inr (tok_type t = ty)))"

fun match :: "Token list \<Rightarrow> nat \<Rightarrow> TokenType list \<Rightarrow> error + (bool \<times> nat)" where
  "match ts current [] = Inr (False, current)"
| "match ts current (ty # types) =
     bind (check ts current ty None) (\<lambda>c.
       if c then bind (Parser_advance ts current) (\<lambda>current'. Inr (True, current'))
       else match ts current types)"

definition matchValue :: "Token list \<Rightarrow> nat \<Rightarrow> TokenType \<Rightarrow> string \<Rightarrow> error + (bool \<times> nat)" where
  "matchValue ts current ty v =
     bind (check ts current ty (Some v)) (\<lambda>c.
       if c then bind (Parser_advance ts current) (\<lambda>current'. Inr (True, current'))
       else Inr (False, current))"

text \<open>\<^verbatim>\<open>consume(type, message)\<close> has two parameters. The parser calls it with three
  arguments wherever it wants a punctuation character, as in
  \<^verbatim>\<open>this.consume(TokenType.PUNCTUATION, '(', 'Expected "(" after "ko"')\<close>: JavaScript
  binds the character to \<open>message\<close> and drops the third argument, so those calls are
  \<open>consume ts current PUNCTUATION ''(''\<close> here.\<close>

definition throwAt :: "Token list \<Rightarrow> nat \<Rightarrow> string \<Rightarrow> error + 'a" where
  "throwAt ts current message =
     bind (readToken (Parser_peek ts current)) (\<lambda>t.
       Inl (SyntaxError message (tok_line t) (tok_column t)))"

definition consume ::
  "Token list \<Rightarrow> nat \<Rightarrow> TokenType \<Rightarrow> string \<Rightarrow> error + (Token option \<times> nat)" where
  "consume ts current ty message =
     bind (check ts current ty None) (\<lambda>c.
       if c then
         bind (Parser_advance ts current) (\<lambda>current'.
           Inr (Parser_previous ts current', current'))
       else throwAt ts current message)"

definition consumeValue ::
  "Token list \<Rightarrow> nat \<Rightarrow> TokenType \<Rightarrow> string \<Rightarrow> string \<Rightarrow>
   error + (Token option \<times> nat)" where
  "consumeValue ts current ty v message =
     bind (check ts current ty (Some v)) (\<lambda>c.
       if c then
         bind (Parser_advance ts current) (\<lambda>current'.
           Inr (Parser_previous ts current', current'))
       else throwAt ts current message)"

text \<open>The condition \<^verbatim>\<open>this.match(type) && test(this.previous().value)\<close>, which the
  parser writes in many places: \<open>match\<close> moves the cursor before the value is looked
  at, and the cursor stays moved when the test fails.\<close>

definition matchPrevious ::
  "Token list \<Rightarrow> nat \<Rightarrow> TokenType \<Rightarrow> (string \<Rightarrow> bool) \<Rightarrow> error + (bool \<times> nat)" where
  "matchPrevious ts current ty test =
     bind (match ts current [ty]) (\<lambda>(m, current').
       if m then
         bind (readToken (Parser_previous ts current')) (\<lambda>t.
           Inr (test (tok_value t), current'))
       else Inr (False, current'))"

section \<open>The parser\<close>

text \<open>The parsing methods call each other recursively, and each call moves on from
  where the call before it stopped. Every method and every loop takes a bound on the
  depth of the calls below it as its first argument (\<open>OutOfFuel\<close> when it is used up);
  the theorems below hold for every bound from some number on.\<close>

text \<open>\<^verbatim>\<open>parseBinaryExpression(nextMethod, operators)\<close>: its \<^verbatim>\<open>while\<close> loop first, then
  the method.\<close>

fun parseBinaryExpression_loop ::
  "nat \<Rightarrow> Token list \<Rightarrow> (nat \<Rightarrow> error + (Expression \<times> nat)) \<Rightarrow> string list \<Rightarrow>
   Expression \<Rightarrow> nat \<Rightarrow> error + (Expression \<times> nat)" where
  "parseBinaryExpression_loop 0 ts nextMethod operators expr current = Inl OutOfFuel"
| "parseBinaryExpression_loop (Suc n) ts nextMethod operators expr current =
     bind (matchPrevious ts current OPERATOR (\<lambda>v. v \<in> set operators)) (\<lambda>(m, cur1).
       if m then
         bind (readToken (Parser_previous ts cur1)) (\<lambda>opTok.
         bind (nextMethod cur1) (\<lambda>(right, cur2).
         bind (readToken (Parser_previous ts cur2)) (\<lambda>p.
           parseBinaryExpression_loop n ts nextMethod operators
             (BinaryExpression (tok_value opTok) expr right (tok_line p) (tok_column p)) cur2)))
       else Inr (expr, cur1))"

definition parseBinaryExpression ::
  "nat \<Rightarrow> Token list \<Rightarrow> (nat \<Rightarrow> error + (Expression \<times> nat)) \<Rightarrow> string list \<Rightarrow>
   nat \<Rightarrow> error + (Expression \<times> nat)" where
  "parseBinaryExpression n ts nextMethod operators current =
     bind (nextMethod current) (\<lambda>(expr, cur1).
       parseBinaryExpression_loop n ts nextMethod operators expr cur1)"

text \<open>The \<^verbatim>\<open>do ... while\<close> loop that reads the parameter names of a function
  declaration.\<close>

fun functionParams ::
  "nat \<Rightarrow> Token list \<Rightarrow> string list \<Rightarrow> nat \<Rightarrow> error + (string list \<times> nat)" where
  "functionParams 0 ts params current = Inl OutOfFuel"
| "functionParams (Suc n) ts params current =
     bind (consume ts current IDENTIFIER ''Expected parameter name'') (\<lambda>(p, cur1).
     bind (readToken p) (\<lambda>t.
     bind (matchPrevious ts cur1 PUNCTUATION (\<lambda>v. v = '','')) (\<lambda>(m, cur2).
       if m then functionParams n ts (params @ [tok_value t]) cur2
       else Inr (params @ [tok_value t], cur2))))"

text \<open>The methods, in the order of the source. \<open>parse_loop\<close> and \<open>blockStatement_loop\<close>
  are the \<^verbatim>\<open>while\<close> loops of \<open>parse\<close> and \<open>blockStatement\<close>, \<open>call_loop\<close> the
  \<^verbatim>\<open>while (true)\<close> of \<open>call\<close>, and \<open>expressionList\<close> the \<^verbatim>\<open>do ... while\<close> loop
  that \<open>finishCall\<close> and \<open>arrayLiteral\<close> both write out. A method that starts with
  \<^verbatim>\<open>const token = this.previous()\<close> keeps the token, defined or not, and reads its
  line and column when it builds its node, after everything else; \<open>primary\<close> never
  reads the \<open>token\<close> it starts with, which is left out.\<close>

function declaration_stmt :: "nat \<Rightarrow> Token list \<Rightarrow> nat \<Rightarrow> error + (Statement \<times> nat)"
  and functionDeclaration :: "nat \<Rightarrow> Token list \<Rightarrow> nat \<Rightarrow> error + (Statement \<times> nat)"
  and statement :: "nat \<Rightarrow> Token list \<Rightarrow> nat \<Rightarrow> error + (Statement \<times> nat)"
  and ifStatement :: "nat \<Rightarrow> Token list \<Rightarrow> nat \<Rightarrow> error + (Statement \<times> nat)"
  and whileStatement :: "nat \<Rightarrow> Token list \<Rightarrow> nat \<Rightarrow> error + (Statement \<times> nat)"
  and forStatement :: "nat \<Rightarrow> Token list \<Rightarrow> nat \<Rightarrow> error + (Statement \<times> nat)"
  and returnStatement :: "nat \<Rightarrow> Token list \<Rightarrow> nat \<Rightarrow> error + (Statement \<times> nat)"
  and blockStatement :: "nat \<Rightarrow> Token list \<Rightarrow> nat \<Rightarrow> error + (Statement \<times> nat)"
  and blockStatement_loop ::
    "nat \<Rightarrow> Token list \<Rightarrow> Statement list \<Rightarrow> nat \<Rightarrow> error + (Statement list \<times> nat)"
  and expressionStatement :: "nat \<Rightarrow> Token list \<Rightarrow> nat \<Rightarrow> error + (Statement \<times> nat)"
  and expression :: "nat \<Rightarrow> Token list \<Rightarrow> nat \<Rightarrow> error + (Expression \<times> nat)"
  and assignment :: "nat \<Rightarrow> Token list \<Rightarrow> nat \<Rightarrow> error + (Expression \<times> nat)"
  and equality :: "nat \<Rightarrow> Token list \<Rightarrow> nat \<Rightarrow> error + (Expression \<times> nat)"
  and comparison :: "nat \<Rightarrow> Token list \<Rightarrow> nat \<Rightarrow> error + (Expression \<times> nat)"
  and addition :: "nat \<Rightarrow> Token list \<Rightarrow> nat \<Rightarrow> error + (Expression \<times> nat)"
  and multiplication :: "nat \<Rightarrow> Token list \<Rightarrow> nat \<Rightarrow> error + (Expression \<times> nat)"
  and unary :: "nat \<Rightarrow> Token list \<Rightarrow> nat \<Rightarrow> error + (Expression \<times> nat)"
  and call :: "nat \<Rightarrow> Token list \<Rightarrow> nat \<Rightarrow> error + (Expression \<times> nat)"
  and call_loop :: "nat \<Rightarrow> Token list \<Rightarrow> Expression \<Rightarrow> nat \<Rightarrow> error + (Expression \<times> nat)"
  and finishCall :: "nat \<Rightarrow> Token list \<Rightarrow> Expression \<Rightarrow> nat \<Rightarrow> error + (Expression \<times> nat)"
  and expressionList ::
    "nat \<Rightarrow> Token list \<Rightarrow> Expression list \<Rightarrow> nat \<Rightarrow> error + (Expression list \<times> nat)"
  and primary :: "nat \<Rightarrow> Token list \<Rightarrow> nat \<Rightarrow> error + (Expression \<times> nat)"
  and arrayLiteral :: "nat \<Rightarrow> Token list \<Rightarrow> nat \<Rightarrow> error + (Expression \<times> nat)"
where
  "declaration_stmt 0 ts current = Inl OutOfFuel"
| "declaration_stmt (Suc n) ts current =
     bind (matchValue ts current KEYWORD ''opejana'') (\<lambda>(m, cur1).
       if m then functionDeclaration n ts cur1 else statement n ts cur1)"

| "functionDeclaration 0 ts current = Inl OutOfFuel"
| "functionDeclaration (Suc n) ts current =
     (let token = Parser_previous ts current in
     bind (consume ts current IDENTIFIER ''Expected function name'') (\<lambda>(p, cur1).
     bind (readToken p) (\<lambda>name.
     bind (consume ts cur1 PUNCTUATION ''('') (\<lambda>(t1, cur2).
     bind (check ts cur2 PUNCTUATION (Some '')'')) (\<lambda>c.
     bind (if \<not> c then functionParams n ts [] cur2 else Inr ([], cur2)) (\<lambda>(params, cur3).
     bind (consume ts cur3 PUNCTUATION '')'') (\<lambda>(t2, cur4).
     bind (consume ts cur4 PUNCTUATION ''{'') (\<lambda>(t3, cur5).
     bind (blockStatement n ts cur5) (\<lambda>(body, cur6).
     bind (readToken token) (\<lambda>tk.
       Inr (FunctionDeclaration (tok_value name) params body (tok_line tk)
              (tok_column tk), cur6)))))))))))"

| "statement 0 ts current = Inl OutOfFuel"
| "statement (Suc n) ts current =
     bind (matchValue ts current KEYWORD ''ko'') (\<lambda>(m1, cur1).
       if m1 then ifStatement n ts cur1 else
     bind (matchValue ts cur1 KEYWORD ''kala'') (\<lambda>(m2, cur2).
       if m2 then whileStatement n ts cur2 else
     bind (matchValue ts cur2 KEYWORD ''che'') (\<lambda>(m3, cur3).
       if m3 then forStatement n ts cur3 else
     bind (matchValue ts cur3 KEYWORD ''raka'') (\<lambda>(m4, cur4).
       if m4 then returnStatement n ts cur4 else
     bind (matchPrevious ts cur4 PUNCTUATION (\<lambda>v. v = ''{'')) (\<lambda>(m5, cur5).
       if m5 then blockStatement n ts cur5 else expressionStatement n ts cur5)))))"

| "ifStatement 0 ts current = Inl OutOfFuel"
| "ifStatement (Suc n) ts current =
     (let token = Parser_previous ts current in
     bind (consume ts current PUNCTUATION ''('') (\<lambda>(t1, cur1).
     bind (expression n ts cur1) (\<lambda>(test, cur2).
     bind (consume ts cur2 PUNCTUATION '')'') (\<lambda>(t2, cur3).
     bind (consume ts cur3 PUNCTUATION ''{'') (\<lambda>(t3, cur4).
     bind (blockStatement n ts cur4) (\<lambda>(consequent, cur5).
     bind (matchValue ts cur5 KEYWORD ''geni'') (\<lambda>(m, cur6).
     bind (if m then
             bind (consume ts cur6 PUNCTUATION ''{'') (\<lambda>(t4, cur7).
             bind (blockStatement n ts cur7) (\<lambda>(alt, cur8). Inr (Some alt, cur8)))
           else Inr (None, cur6)) (\<lambda>(alternate, cur9).
     bind (readToken token) (\<lambda>tk.
       Inr (IfStatement test consequent alternate (tok_line tk) (tok_column tk),
            cur9))))))))))"

| "whileStatement 0 ts current = Inl OutOfFuel"
| "whileStatement (Suc n) ts current =
     (let token = Parser_previous ts current in
     bind (consume ts current PUNCTUATION ''('') (\<lambda>(t1, cur1).
     bind (expression n ts cur1) (\<lambda>(test, cur2).
     bind (consume ts cur2 PUNCTUATION '')'') (\<lambda>(t2, cur3).
     bind (consume ts cur3 PUNCTUATION ''{'') (\<lambda>(t3, cur4).
     bind (blockStatement n ts cur4) (\<lambda>(body, cur5).
     bind (readToken token) (\<lambda>tk.
       Inr (WhileStatement test body (tok_line tk) (tok_column tk), cur5))))))))"

| "forStatement 0 ts current = Inl OutOfFuel"
| "forStatement (Suc n) ts current =
     (let token = Parser_previous ts current in
     bind (consume ts current PUNCTUATION ''('') (\<lambda>(t1, cur1).
     bind (consume ts cur1 IDENTIFIER ''Expected variable name in for loop'') (\<lambda>(p, cur2).
     bind (readToken p) (\<lambda>variable.
     bind (consumeValue ts cur2 KEYWORD ''we''
             (''Expected '' @ [quote2] @ ''we'' @ [quote2] @
              '' after variable name in for loop'')) (\<lambda>(t2, cur3).
     bind (expression n ts cur3) (\<lambda>(iterable, cur4).
     bind (consume ts cur4 PUNCTUATION '')'') (\<lambda>(t3, cur5).
     bind (consume ts cur5 PUNCTUATION ''{'') (\<lambda>(t4, cur6).
     bind (blockStatement n ts cur6) (\<lambda>(body, cur7).
     bind (readToken token) (\<lambda>tk.
       Inr (ForStatement (tok_value variable) iterable body (tok_line tk)
              (tok_column tk), cur7)))))))))))"

| "returnStatement 0 ts current = Inl OutOfFuel"
| "returnStatement (Suc n) ts current =
     (let token = Parser_previous ts current in
     bind (check ts current PUNCTUATION (Some '';'')) (\<lambda>c1.
     bind (if \<not> c1 then check ts current PUNCTUATION (Some ''}'') else Inr True) (\<lambda>c2.
     bind (if \<not> c1 \<and> \<not> c2 then
             bind (expression n ts current) (\<lambda>(e, cur1). Inr (Some e, cur1))
           else Inr (None, current)) (\<lambda>(argument, cur2).
     bind (matchPrevious ts cur2 PUNCTUATION (\<lambda>v. v = '';'')) (\<lambda>(m, cur3).
     bind (readToken token) (\<lambda>tk.
       Inr (ReturnStatement argument (tok_line tk) (tok_column tk), cur3)))))))"

| "blockStatement 0 ts current = Inl OutOfFuel"
| "blockStatement (Suc n) ts current =
     (let token = Parser_previous ts current in
     bind (blockStatement_loop n ts [] current) (\<lambda>(statements, cur1).
     bind (consume ts cur1 PUNCTUATION ''}'') (\<lambda>(t1, cur2).
     bind (readToken token) (\<lambda>tk.
       Inr (BlockStatement statements (tok_line tk) (tok_column tk), cur2)))))"

| "blockStatement_loop 0 ts statements current = Inl OutOfFuel"
| "blockStatement_loop (Suc n) ts statements current =
     bind (check ts current PUNCTUATION (Some ''}'')) (\<lambda>c.
     bind (if \<not> c then isAtEnd ts current else Inr True) (\<lambda>e.
       if \<not> c \<and> \<not> e then
         bind (declaration_stmt n ts current) (\<lambda>(s, cur1).
           blockStatement_loop n ts (statements @ [s]) cur1)
       else Inr (statements, current)))"

| "expressionStatement 0 ts current = Inl OutOfFuel"
| "expressionStatement (Suc n) ts current =
     (let token = Parser_peek ts current in
     bind (expression n ts current) (\<lambda>(expr, cur1).
     bind (matchPrevious ts cur1 PUNCTUATION (\<lambda>v. v = '';'')) (\<lambda>(m, cur2).
     bind (readToken token) (\<lambda>tk.
       Inr (ExpressionStatement expr (tok_line tk) (tok_column tk), cur2)))))"

| "expression 0 ts current = Inl OutOfFuel"
| "expression (Suc n) ts current = assignment n ts current"

| "assignment 0 ts current = Inl OutOfFuel"
| "assignment (Suc n) ts current =
     bind (equality n ts current) (\<lambda>(expr, cur1).
     bind (matchPrevious ts cur1 OPERATOR (\<lambda>v. v = ''='')) (\<lambda>(m, cur2).
       if m then
         (let equals = Parser_previous ts cur2 in
         bind (assignment n ts cur2) (\<lambda>(v, cur3).
         bind (readToken equals) (\<lambda>eq.
           if isIdentifier expr then
             Inr (AssignmentExpression expr v (tok_line eq) (tok_column eq), cur3)
           else Inl (SyntaxError ''Invalid assignment target'' (tok_line eq)
                       (tok_column eq)))))
       else Inr (expr, cur2)))"

| "equality 0 ts current = Inl OutOfFuel"
| "equality (Suc n) ts current =
     parseBinaryExpression n ts (comparison n ts) [''=='', ''!=''] current"

| "comparison 0 ts current = Inl OutOfFuel"
| "comparison (Suc n) ts current =
     parseBinaryExpression n ts (addition n ts) [''>'', ''<'', ''>='', ''<=''] current"

| "addition 0 ts current = Inl OutOfFuel"
| "addition (Suc n) ts current =
     parseBinaryExpression n ts (multiplication n ts)
       [''+'', ''-'', ''_'', ''jama'', ''manfi''] current"

| "multiplication 0 ts current = Inl OutOfFuel"
| "multiplication (Suc n) ts current =
     parseBinaryExpression n ts (unary n ts)
       [''*'', ''/'', ''%'', ''zarab'', ''takseem'', ''takseembaki''] current"

| "unary 0 ts current = Inl OutOfFuel"
| "unary (Suc n) ts current =
     bind (matchPrevious ts current OPERATOR (\<lambda>v. v \<in> set [''-'', ''manfi''])) (\<lambda>(m, cur1).
       if m then
         bind (readToken (Parser_previous ts cur1)) (\<lambda>opTok.
         bind (unary n ts cur1) (\<lambda>(right, cur2).
         bind (readToken (Parser_previous ts cur2)) (\<lambda>p.
           Inr (BinaryExpression (tok_value opTok)
                  (NumericLiteral (Finite 0) (tok_line p) (tok_column p)) right
                  (tok_line p) (tok_column p), cur2))))
       else call n ts cur1)"

| "call 0 ts current = Inl OutOfFuel"
| "call (Suc n) ts current =
     bind (primary n ts current) (\<lambda>(expr, cur1). call_loop n ts expr cur1)"

| "call_loop 0 ts expr current = Inl OutOfFuel"
| "call_loop (Suc n) ts expr current =
     bind (matchPrevious ts current PUNCTUATION (\<lambda>v. v = ''('')) (\<lambda>(m, cur1).
       if m then bind (finishCall n ts expr cur1) (\<lambda>(e, cur2). call_loop n ts e cur2)
       else Inr (expr, cur1))"

| "finishCall 0 ts callee current = Inl OutOfFuel"
| "finishCall (Suc n) ts callee current =
     (let token = Parser_previous ts current in
     bind (check ts current PUNCTUATION (Some '')'')) (\<lambda>c.
     bind (if \<not> c then expressionList n ts [] current else Inr ([], current)) (\<lambda>(args, cur1).
     bind (consume ts cur1 PUNCTUATION '')'') (\<lambda>(t1, cur2).
     bind (readToken token) (\<lambda>tk.
       Inr (CallExpression callee args (tok_line tk) (tok_column tk), cur2))))))"

| "expressionList 0 ts elements current = Inl OutOfFuel"
| "expressionList (Suc n) ts elements current =
     bind (expression n ts current) (\<lambda>(e, cur1).
     bind (matchPrevious ts cur1 PUNCTUATION (\<lambda>v. v = '','')) (\<lambda>(m, cur2).
       if m then expressionList n ts (elements @ [e]) cur2
       else Inr (elements @ [e], cur2)))"

| "primary 0 ts current = Inl OutOfFuel"
| "primary (Suc n) ts current =
     bind (match ts current [NUMBER]) (\<lambda>(m1, cur1).
       if m1 then
         bind (readToken (Parser_previous ts cur1)) (\<lambda>p.
           Inr (NumericLiteral (parseFloat (tok_value p)) (tok_line p) (tok_column p), cur1))
       else
     bind (match ts cur1 [STRING]) (\<lambda>(m2, cur2).
       if m2 then
         bind (readToken (Parser_previous ts cur2)) (\<lambda>p.
           Inr (StringLiteral (tok_value p) (tok_line p) (tok_column p), cur2))
       else
     bind (matchValue ts cur2 KEYWORD ''rishtia'') (\<lambda>(m3, cur3).
       if m3 then
         bind (readToken (Parser_previous ts cur3)) (\<lambda>p.
           Inr (BooleanLiteral True (tok_line p) (tok_column p), cur3))
       else
     bind (matchValue ts cur3 KEYWORD ''ghalat'') (\<lambda>(m4, cur4).
       if m4 then
         bind (readToken (Parser_previous ts cur4)) (\<lambda>p.
           Inr (BooleanLiteral False (tok_line p) (tok_column p), cur4))
       else
     bind (matchPrevious ts cur4 PUNCTUATION (\<lambda>v. v = ''['')) (\<lambda>(m5, cur5).
       if m5 then arrayLiteral n ts cur5 else
     bind (matchPrevious ts cur5 PUNCTUATION (\<lambda>v. v = ''('')) (\<lambda>(m6, cur6).
       if m6 then
         bind (expression n ts cur6) (\<lambda>(expr, cur7).
         bind (consume ts cur7 PUNCTUATION '')'') (\<lambda>(t1, cur8). Inr (expr, cur8)))
       else
     bind (match ts cur6 [IDENTIFIER]) (\<lambda>(m7, cur7).
       if m7 then
         bind (readToken (Parser_previous ts cur7)) (\<lambda>p.
           Inr (Identifier (tok_value p) (tok_line p) (tok_column p), cur7))
       else
     bind (readToken (Parser_peek ts cur7)) (\<lambda>t.
       Inl (SyntaxError (''Unexpected token '' @ [quote1] @ tok_value t @ [quote1])
              (tok_line t) (tok_column t))))))))))"

| "arrayLiteral 0 ts current = Inl OutOfFuel"
| "arrayLiteral (Suc n) ts current =
     (let token = Parser_previous ts current in
     bind (check ts current PUNCTUATION (Some '']'')) (\<lambda>c.
     bind (if \<not> c then expressionList n ts [] current else Inr ([], current)) (\<lambda>(elements, cur1).
     bind (consume ts cur1 PUNCTUATION '']'') (\<lambda>(t1, cur2).
     bind (readToken token) (\<lambda>tk.
       Inr (ArrayLiteral elements (tok_line tk) (tok_column tk), cur2))))))"

  by pat_completeness auto

text \<open>Every call passes on a smaller bound. The measure reads the bound, the first
  argument, in each of the 23 summands of the argument type.\<close>

termination
  by (relation "measure
    (case_sum
      (case_sum
        (case_sum (case_sum fst fst) (case_sum fst (case_sum fst fst)))
        (case_sum (case_sum fst (case_sum fst fst)) (case_sum fst (case_sum fst fst))))
      (case_sum
        (case_sum (case_sum fst (case_sum fst fst)) (case_sum fst (case_sum fst fst)))
        (case_sum (case_sum fst (case_sum fst fst)) (case_sum fst (case_sum fst fst)))))")
    auto

fun parse_loop :: "nat \<Rightarrow> Token list \<Rightarrow> Statement list \<Rightarrow> nat \<Rightarrow> error + Statement list" where
  "parse_loop 0 ts body current = Inl OutOfFuel"
| "parse_loop (Suc n) ts body current =
     bind (isAtEnd ts current) (\<lambda>e.
       if \<not> e then
         bind (declaration_stmt n ts current) (\<lambda>(s, cur1). parse_loop n ts (body @ [s]) cur1)
       else Inr body)"

definition parse :: "nat \<Rightarrow> Token list \<Rightarrow> error + Program" where
  "parse n ts = bind (parse_loop n ts [] 0) (\<lambda>body. Inr (Program body 1 1))"

section \<open>The specification's reading of a word\<close>

text \<open>What the specification says of an identifier-shaped lexeme \<open>w\<close>: when its
  lower-case form is in the keyword set it is a keyword token with the lower-case value,
  when it is in the word-operator set it is an operator token with the lower-case value,
  and otherwise it is an identifier token with its own spelling. These two functions
  follow those words; the theorems compare them with what \<open>getNextToken\<close> returns.\<close>

definition spec_word_type :: "string \<Rightarrow> TokenType" where
  "spec_word_type w =
     (if toLowerCase w \<in> set KEYWORDS then KEYWORD
      else if toLowerCase w \<in> set OPERATORS then OPERATOR
      else IDENTIFIER)"

definition spec_word_value :: "string \<Rightarrow> string" where
  "spec_word_value w =
     (if toLowerCase w \<in> set KEYWORDS \<or> toLowerCase w \<in> set OPERATORS then toLowerCase w
      else w)"

section \<open>Reading \<^verbatim>\<open>jama\<close> for \<^verbatim>\<open>+\<close>\<close>

text \<open>The specification states that \<^verbatim>\<open>jama\<close> behaves as \<^verbatim>\<open>+\<close>. These functions write
  \<^verbatim>\<open>jama\<close> for \<^verbatim>\<open>+\<close>: \<open>jama_token\<close> in the value of an operator token, \<open>jama_expr\<close>,
  \<open>jama_stmt\<close> and \<open>jama_program\<close> in the operator of every binary node of a tree; lines,
  columns and everything else stay. \<open>jama_error\<close> relates two errors that are equal or
  are the error \<^verbatim>\<open>Unexpected token '+'\<close> and the error \<^verbatim>\<open>Unexpected token 'jama'\<close> at
  one position. \<open>jama_result h r r'\<close> says that \<open>r'\<close> is what \<open>r\<close> becomes: when \<open>r\<close> is a
  value, \<open>r'\<close> is that value under \<open>h\<close>, and when \<open>r\<close> is an error, \<open>r'\<close> is an error
  related to it.\<close>

definition jama_op :: "string \<Rightarrow> string" where
  "jama_op v = (if v = ''+'' then ''jama'' else v)"

definition jama_token :: "Token \<Rightarrow> Token" where
  "jama_token t =
     (if tok_type t = OPERATOR then t\<lparr>tok_value := jama_op (tok_value t)\<rparr> else t)"

primrec jama_expr :: "Expression \<Rightarrow> Expression" where
  "jama_expr (NumericLiteral v l c) = NumericLiteral v l c"
| "jama_expr (StringLiteral v l c) = StringLiteral v l c"
| "jama_expr (BooleanLiteral v l c) = BooleanLiteral v l c"
| "jama_expr (Identifier v l c) = Identifier v l c"
| "jama_expr (BinaryExpression op a b l c) =
     BinaryExpression (jama_op op) (jama_expr a) (jama_expr b) l c"
| "jama_expr (AssignmentExpression a b l c) = AssignmentExpression (jama_expr a) (jama_expr b) l c"
| "jama_expr (CallExpression f args l c) = CallExpression (jama_expr f) (map jama_expr args) l c"
| "jama_expr (ArrayLiteral es l c) = ArrayLiteral (map jama_expr es) l c"

primrec jama_stmt :: "Statement \<Rightarrow> Statement" where
  "jama_stmt (FunctionDeclaration name params body l c) =
     FunctionDeclaration name params (jama_stmt body) l c"
| "jama_stmt (IfStatement test consequent alternate l c) =
     IfStatement (jama_expr test) (jama_stmt consequent) (map_option jama_stmt alternate) l c"
| "jama_stmt (WhileStatement test body l c) = WhileStatement (jama_expr test) (jama_stmt body) l c"
| "jama_stmt (ForStatement v iterable body l c) =
     ForStatement v (jama_expr iterable) (jama_stmt body) l c"
| "jama_stmt (ReturnStatement argument l c) = ReturnStatement (map_option jama_expr argument) l c"
| "jama_stmt (BlockStatement body l c) = BlockStatement (map jama_stmt body) l c"
| "jama_stmt (ExpressionStatement e l c) = ExpressionStatement (jama_expr e) l c"

primrec jama_program :: "Program \<Rightarrow> Program" where
  "jama_program (Program body l c) = Program (map jama_stmt body) l c"

text \<open>The message of \<open>primary\<close> on a token it has no case for.\<close>

definition unexpected :: "string \<Rightarrow> string" where
  "unexpected v = ''Unexpected token '' @ [quote1] @ v @ [quote1]"

definition jama_error :: "error \<Rightarrow> error \<Rightarrow> bool" where
  "jama_error e e' =
     (e' = e \<or>
      (case e of
         SyntaxError m l c \<Rightarrow>
           m = unexpected ''+'' \<and> e' = SyntaxError (unexpected ''jama'') l c
       | _ \<Rightarrow> False))"

definition jama_result :: "('a \<Rightarrow> 'a) \<Rightarrow> error + 'a \<Rightarrow> error + 'a \<Rightarrow> bool" where
  "jama_result h r r' =
     (case r of
        Inl e \<Rightarrow> (case r' of Inl e' \<Rightarrow> jama_error e e' | Inr y \<Rightarrow> False)
      | Inr x \<Rightarrow> r' = Inr (h x))"

section \<open>The entry point\<close>

text \<open>\<^verbatim>\<open>runPashtoPlusPlus\<close> of \<^verbatim>\<open>interpreter-client.ts\<close>: lexer, parser, interpreter, and
  the \<^verbatim>\<open>catch\<close> that turns an error into a result with empty output. The interpreter
  (\<^verbatim>\<open>interpreter.ts\<close>) is not among the sources; it is the parameter \<open>interpret\<close>,
  which stands for \<^verbatim>\<open>new Interpreter(inputCallback).interpret(program)\<close> under that
  \<^verbatim>\<open>catch\<close>.\<close>

record Result =
  run_output :: string
  run_error :: "error option"

definition runPashtoPlusPlus :: "(Program \<Rightarrow> Result) \<Rightarrow> nat \<Rightarrow> string \<Rightarrow> Result" where
  "runPashtoPlusPlus interpret n c =
     (case tokenize c of
        Inl e \<Rightarrow> \<lparr>run_output = [], run_error = Some e\<rparr>
      | Inr tokens \<Rightarrow>
          (case parse n tokens of
             Inl e \<Rightarrow> \<lparr>run_output = [], run_error = Some e\<rparr>
           | Inr program \<Rightarrow> interpret program))"

text \<open>The program \<^verbatim>\<open>olika("Salam" _ "Ji")\<close>.\<close>

definition salam_ji :: string where
  "salam_ji = ''olika('' @ [quote2] @ ''Salam'' @ [quote2] @ '' _ '' @ [quote2] @ ''Ji'' @
     [quote2] @ '')''"

section \<open>Evaluation\<close>

text \<open>Lower-casing looks the table up for the upper-case letters only.\<close>

lemma lower_table:
  "zip upperChars lowerChars =
     [(CHR ''A'', CHR ''a''), (CHR ''B'', CHR ''b''), (CHR ''C'', CHR ''c''),
      (CHR ''D'', CHR ''d''), (CHR ''E'', CHR ''e''), (CHR ''F'', CHR ''f''),
      (CHR ''G'', CHR ''g''), (CHR ''H'', CHR ''h''), (CHR ''I'', CHR ''i''),
      (CHR ''J'', CHR ''j''), (CHR ''K'', CHR ''k''), (CHR ''L'', CHR ''l''),
      (CHR ''M'', CHR ''m''), (CHR ''N'', CHR ''n''), (CHR ''O'', CHR ''o''),
      (CHR ''P'', CHR ''p''), (CHR ''Q'', CHR ''q''), (CHR ''R'', CHR ''r''),
      (CHR ''S'', CHR ''s''), (CHR ''T'', CHR ''t''), (CHR ''U'', CHR ''u''),
      (CHR ''V'', CHR ''v''), (CHR ''W'', CHR ''w''), (CHR ''X'', CHR ''x''),
      (CHR ''Y'', CHR ''y''), (CHR ''Z'', CHR ''z''),
      (CHR 0xC0, CHR 0xE0), (CHR 0xC1, CHR 0xE1), (CHR 0xC2, CHR 0xE2), (CHR 0xC3, CHR 0xE3),
      (CHR 0xC4, CHR 0xE4), (CHR 0xC5, CHR 0xE5), (CHR 0xC6, CHR 0xE6), (CHR 0xC7, CHR 0xE7),
      (CHR 0xC8, CHR 0xE8), (CHR 0xC9, CHR 0xE9), (CHR 0xCA, CHR 0xEA), (CHR 0xCB, CHR 0xEB),
      (CHR 0xCC, CHR 0xEC), (CHR 0xCD, CHR 0xED), (CHR 0xCE, CHR 0xEE), (CHR 0xCF, CHR 0xEF),
      (CHR 0xD0, CHR 0xF0), (CHR 0xD1, CHR 0xF1), (CHR 0xD2, CHR 0xF2), (CHR 0xD3, CHR 0xF3),
      (CHR 0xD4, CHR 0xF4), (CHR 0xD5, CHR 0xF5), (CHR 0xD6, CHR 0xF6),
      (CHR 0xD8, CHR 0xF8), (CHR 0xD9, CHR 0xF9), (CHR 0xDA, CHR 0xFA), (CHR 0xDB, CHR 0xFB),
      (CHR 0xDC, CHR 0xFC), (CHR 0xDD, CHR 0xFD), (CHR 0xDE, CHR 0xFE)]"
  by (simp add: upperChars_def lowerChars_def)

lemma upperChars_range:
  "c \<in> set upperChars \<Longrightarrow>
     (CHR ''A'' \<le> c \<and> c \<le> CHR ''Z'') \<or> (CHR 0xC0 \<le> c \<and> c \<le> CHR 0xDE)"
  by (auto simp: upperChars_def less_eq_char_def)

lemma toLowerChar_eval:
  "toLowerChar c =
     (if (CHR ''A'' \<le> c \<and> c \<le> CHR ''Z'') \<or> (CHR 0xC0 \<le> c \<and> c \<le> CHR 0xDE)
      then (case map_of (zip upperChars lowerChars) c of Some l \<Rightarrow> l | None \<Rightarrow> c)
      else c)"
proof (cases "c \<in> set upperChars")
  case True
  then show ?thesis using upperChars_range [of c] by (simp add: toLowerChar_def)
next
  case False
  have "length upperChars = length lowerChars"
    by (simp add: upperChars_def lowerChars_def)
  then have "map fst (zip upperChars lowerChars) = upperChars"
    by (rule map_fst_zip)
  then have "fst ` set (zip upperChars lowerChars) = set upperChars"
    by (metis set_map)
  then have "map_of (zip upperChars lowerChars) c = None"
    using False by (simp add: map_of_eq_None_iff)
  then show ?thesis by (simp add: toLowerChar_def)
qed

lemmas lexer_eval =
  tokenize_def Lexer_new_def tokenize_loop.simps getNextToken.simps scanWhile.simps
  advance_def peek_def skipWhitespace_def skipComment_def number_def string_tok_def
  identifier_tok_def operator_def isSpace_def isDigit_def isIdentStart_def isIdentChar_def
  toLowerCase_def toLowerChar_eval lower_table KEYWORDS_def OPERATORS_def
  punctuation_def newline_def quote1_def quote2_def Let_def

lemmas cursor_eval =
  tokenAt_def readToken_def Parser_peek_def Parser_previous_def isAtEnd_def Parser_advance_def
  Let_def
  check_def matchValue_def throwAt_def consume_def consumeValue_def matchPrevious_def
  parseBinaryExpression_def parse_def parseFloat_def digitsValue_def toDouble_def
  roundHalfEven_def pow2_def bitLength.simps

text \<open>A bound \<open>n + k\<close> is unfolded one call at a time.\<close>

lemma fuel_numeral: "n + numeral k = Suc (n + pred_numeral k)"
  by (simp add: numeral_eq_Suc)

section \<open>The lexer on one lexeme\<close>

lemma lexer_ok_new: "lexer_ok (Lexer_new c)"
  by (simp add: lexer_ok_def Lexer_new_def)

lemma code_advance [simp]: "code (advance L) = code L"
  by (simp add: advance_def Let_def)

lemma position_advance [simp]: "position (advance L) = Suc (position L)"
  by (simp add: advance_def Let_def)

lemma lexer_ok_advance: "lexer_ok L \<Longrightarrow> lexer_ok (advance L)"
  by (simp add: lexer_ok_def advance_def Let_def)

lemma currentChar_at:
  assumes "lexer_ok L" "code L = pre @ xs" "position L = length pre"
  shows "currentChar L = (case xs of [] \<Rightarrow> None | x # _ \<Rightarrow> Some x)"
  using assms by (cases xs) (simp_all add: lexer_ok_def nth_append)

lemma scanWhile_span:
  assumes "lexer_ok L" "code L = pre @ w @ rest" "position L = length pre"
    "\<forall>c\<in>set w. p c" "rest = [] \<or> \<not> p (hd rest)"
  shows "\<exists>L'. scanWhile p r L = (r @ w, L') \<and> lexer_ok L' \<and> code L' = code L \<and>
           position L' = length pre + length w"
  using assms
proof (induction w arbitrary: pre r L)
  case Nil
  then have "currentChar L = (case rest of [] \<Rightarrow> None | x # _ \<Rightarrow> Some x)"
    using currentChar_at [of L pre rest] by simp
  with Nil show ?case
    by (cases rest) (simp_all add: scanWhile.simps [of p r L])
next
  case (Cons a w)
  have cur: "currentChar L = Some a"
    using currentChar_at [of L pre "a # w @ rest"] Cons.prems by simp
  have step: "scanWhile p r L = scanWhile p (r @ [a]) (advance L)"
    using cur Cons.prems(4) by (simp add: scanWhile.simps [of p r L])
  have "\<exists>L'. scanWhile p (r @ [a]) (advance L) = ((r @ [a]) @ w, L') \<and> lexer_ok L' \<and>
          code L' = code (advance L) \<and> position L' = length (pre @ [a]) + length w"
    using Cons.prems by (intro Cons.IH) (simp_all add: lexer_ok_advance)
  with step show ?case by simp
qed


lemma advance_same_line:
  assumes "lexer_ok L" "code L = pre @ a # xs" "position L = length pre"
    "xs = [] \<or> hd xs \<noteq> newline"
  shows "line (advance L) = line L \<and> column (advance L) = column L + 1"
  using assms by (cases xs) (auto simp: advance_def Let_def nth_append)

lemma scanWhile_same_line:
  assumes "lexer_ok L" "code L = pre @ w @ rest" "position L = length pre"
    "\<forall>c\<in>set w. p c" "rest = [] \<or> \<not> p (hd rest)"
    "newline \<notin> set w" "rest = [] \<or> hd rest \<noteq> newline"
  shows "line (snd (scanWhile p r L)) = line L \<and>
         column (snd (scanWhile p r L)) = column L + length w"
  using assms
proof (induction w arbitrary: pre r L)
  case Nil
  then have "currentChar L = (case rest of [] \<Rightarrow> None | x # _ \<Rightarrow> Some x)"
    using currentChar_at [of L pre rest] by simp
  with Nil show ?case
    by (cases rest) (simp_all add: scanWhile.simps [of p r L])
next
  case (Cons a w)
  have cur: "currentChar L = Some a"
    using currentChar_at [of L pre "a # w @ rest"] Cons.prems by simp
  have step: "scanWhile p r L = scanWhile p (r @ [a]) (advance L)"
    using cur Cons.prems(4) by (simp add: scanWhile.simps [of p r L])
  have nxt: "w @ rest = [] \<or> hd (w @ rest) \<noteq> newline"
    using Cons.prems(6,7) by (cases w) auto
  have adv: "line (advance L) = line L \<and> column (advance L) = column L + 1"
    using Cons.prems(1,2,3) nxt by (intro advance_same_line [of L pre a "w @ rest"]) simp_all
  have "line (snd (scanWhile p (r @ [a]) (advance L))) = line (advance L) \<and>
        column (snd (scanWhile p (r @ [a]) (advance L))) = column (advance L) + length w"
    using Cons.prems by (intro Cons.IH [of "advance L" "pre @ [a]"]) (simp_all add: lexer_ok_advance)
  with step adv show ?case by simp
qed

lemma isIdentStart_not_other:
  assumes "isIdentStart c"
  shows "\<not> isSpace c" "c \<noteq> CHR ''/''" "\<not> isDigit c" "c \<noteq> quote1" "c \<noteq> quote2" "c \<noteq> newline"
  using assms
  by (auto simp: isIdentStart_def isSpace_def isDigit_def quote1_def quote2_def newline_def
      less_eq_char_def)

lemma isIdentChar_not_newline: "isIdentChar c \<Longrightarrow> c \<noteq> newline"
  by (auto simp: isIdentChar_def isIdentStart_def isDigit_def newline_def less_eq_char_def)

lemma getNextToken_identifier:
  assumes "lexer_ok L" "code L = pre @ w @ rest" "position L = length pre"
    "w \<noteq> []" "isIdentStart (hd w)" "\<forall>c\<in>set w. isIdentChar c"
    "rest = [] \<or> \<not> isIdentChar (hd rest)"
  shows "\<exists>L'. getNextToken L =
            Inr (\<lparr>tok_type = spec_word_type w, tok_value = spec_word_value w,
                  tok_line = line L', tok_column = column L\<rparr>, L') \<and>
          lexer_ok L' \<and> code L' = code L \<and> position L' = length pre + length w \<and>
          L' = snd (scanWhile isIdentChar [] L)"
proof -
  obtain L' where scan: "scanWhile isIdentChar [] L = ([] @ w, L')" and ok: "lexer_ok L'"
    and code: "code L' = code L" and pos: "position L' = length pre + length w"
    using scanWhile_span [OF assms(1,2,3,6,7), of "[]"] by blast
  have cur: "currentChar L = Some (hd w)"
    using currentChar_at [of L pre "w @ rest"] assms by (cases w) simp_all
  have "getNextToken L = Inr (identifier_tok L)"
    using cur isIdentStart_not_other [OF assms(5)]
    by (simp add: getNextToken.simps [of L] assms(5))
  moreover have "identifier_tok L =
      (\<lparr>tok_type = spec_word_type w, tok_value = spec_word_value w, tok_line = line L',
        tok_column = column L\<rparr>, L')"
    using scan
    by (simp add: identifier_tok_def spec_word_type_def spec_word_value_def Let_def)
  ultimately show ?thesis using ok code pos scan by simp
qed


text \<open>The invariant \<open>lexer_ok\<close> holds at the start and after every token, so the
  lexer reaches each lexeme of a text in a state the lemmas above are about.\<close>

lemma lexer_ok_scanWhile: "lexer_ok L \<Longrightarrow> lexer_ok (snd (scanWhile p r L))"
proof (induction p r L rule: scanWhile.induct)
  case (1 p result L)
  show ?case
  proof (cases "currentChar L")
    case None
    with "1.prems" show ?thesis by (simp add: scanWhile.simps [of p result L])
  next
    case (Some c)
    with 1 show ?thesis
      by (cases "p c") (simp_all add: scanWhile.simps [of p result L] lexer_ok_advance)
  qed
qed

lemma lexer_ok_getNextToken:
  "lexer_ok L \<Longrightarrow> getNextToken L = Inr (tok, L') \<Longrightarrow> lexer_ok L'"
proof (induction L rule: getNextToken.induct)
  case (1 L)
  show ?case
  proof (cases "currentChar L")
    case None
    with "1.prems" show ?thesis by (auto simp: getNextToken.simps [of L])
  next
    case (Some c)
    have ws: "lexer_ok (skipWhitespace L)"
      using "1.prems"(1) by (simp add: skipWhitespace_def lexer_ok_scanWhile)
    have cm: "lexer_ok (skipComment L)"
      using "1.prems"(1) by (simp add: skipComment_def Let_def lexer_ok_scanWhile lexer_ok_advance)
    have nu: "lexer_ok (snd (number L))"
      using "1.prems"(1) lexer_ok_scanWhile [of L isDigit "[]"]
        lexer_ok_scanWhile [of "advance (snd (scanWhile isDigit [] L))" isDigit]
      by (auto simp: number_def Let_def lexer_ok_advance split: prod.splits)
         (metis lexer_ok_advance snd_conv)+
    have st: "lexer_ok L'" if "string_tok L = Inr (tok, L')"
      using that "1.prems"(1)
        lexer_ok_scanWhile [of "advance L" "\<lambda>c. Some c \<noteq> currentChar L" "[]"]
      by (auto simp: string_tok_def Let_def lexer_ok_advance split: prod.splits if_splits)
    have idt: "lexer_ok (snd (identifier_tok L))"
      using "1.prems"(1) lexer_ok_scanWhile [of L isIdentChar "[]"]
      by (auto simp: identifier_tok_def Let_def split: prod.splits)
    have op: "lexer_ok (snd (operator L))"
      using "1.prems"(1)
      by (auto simp: operator_def Let_def lexer_ok_advance split: prod.splits if_splits)
    show ?thesis
      using "1.prems" "1.IH" Some ws cm nu st idt op
      by (auto simp: getNextToken.simps [of L] lexer_ok_advance split: if_splits)
  qed
qed


lemma quote_not_other:
  assumes "q = quote1 \<or> q = quote2"
  shows "\<not> isSpace q" "q \<noteq> CHR ''/''" "\<not> isDigit q"
  using assms by (auto simp: isSpace_def isDigit_def quote1_def quote2_def less_eq_char_def)

lemma getNextToken_string:
  assumes "lexer_ok L" "code L = pre @ q # s @ q # rest" "position L = length pre"
    "q = quote1 \<or> q = quote2" "q \<notin> set s"
  shows "\<exists>L'. getNextToken L =
            Inr (\<lparr>tok_type = STRING, tok_value = s, tok_line = line L', tok_column = column L\<rparr>, L')
          \<and> lexer_ok L' \<and> code L' = code L \<and> position L' = length pre + length s + 2"
proof -
  have cur: "currentChar L = Some q"
    using currentChar_at [of L pre "q # s @ q # rest"] assms by simp
  have tok: "getNextToken L = string_tok L"
    using cur quote_not_other [OF assms(4)] assms(4)
    by (auto simp: getNextToken.simps [of L])
  obtain L1 where scan: "scanWhile (\<lambda>c. Some c \<noteq> Some q) [] (advance L) = ([] @ s, L1)"
    and ok1: "lexer_ok L1" and code1: "code L1 = code (advance L)"
    and pos1: "position L1 = length (pre @ [q]) + length s"
    using scanWhile_span [of "advance L" "pre @ [q]" s "q # rest" "\<lambda>c. Some c \<noteq> Some q" "[]"]
      assms by (auto simp: lexer_ok_advance)
  have cur1: "currentChar L1 = Some q"
    using currentChar_at [of L1 "pre @ q # s" "q # rest"] ok1 code1 pos1 assms(2) by simp
  have "string_tok L =
          Inr (\<lparr>tok_type = STRING, tok_value = s, tok_line = line (advance L1),
                tok_column = column L\<rparr>, advance L1)"
    using cur scan cur1 by (simp add: string_tok_def Let_def)
  with tok ok1 code1 pos1 show ?thesis
    by (auto simp: lexer_ok_advance)
qed

lemma getNextToken_at_end:
  assumes "lexer_ok L" "length (code L) \<le> position L"
  shows "getNextToken L =
           Inr (\<lparr>tok_type = EOF, tok_value = [], tok_line = line L, tok_column = column L\<rparr>, L)"
  using assms by (simp add: lexer_ok_def getNextToken.simps [of L])

lemma tokenize_single:
  assumes "getNextToken (Lexer_new c) = Inr (tok, L')" "tok_type tok \<noteq> EOF"
    "lexer_ok L'" "code L' = c" "position L' = length c"
  shows "tokenize c =
           Inr [tok, \<lparr>tok_type = EOF, tok_value = [], tok_line = line L', tok_column = column L'\<rparr>]"
proof -
  have "getNextToken L' =
          Inr (\<lparr>tok_type = EOF, tok_value = [], tok_line = line L', tok_column = column L'\<rparr>, L')"
    using assms(3,4,5) by (intro getNextToken_at_end) simp_all
  then have "tokenize_loop L' [tok] =
          Inr [tok, \<lparr>tok_type = EOF, tok_value = [], tok_line = line L', tok_column = column L'\<rparr>]"
    by (simp add: tokenize_loop.simps [of L' "[tok]"])
  then show ?thesis
    using assms(1,2) by (simp add: tokenize_def tokenize_loop.simps [of "Lexer_new c" "[]"])
qed

lemma spec_word_type_not_EOF: "spec_word_type w \<noteq> EOF"
  by (simp add: spec_word_type_def)

lemma tokenize_word:
  assumes "w \<noteq> []" "isIdentStart (hd w)" "\<forall>c\<in>set w. isIdentChar c"
  shows "tokenize w =
           Inr [\<lparr>tok_type = spec_word_type w, tok_value = spec_word_value w, tok_line = 1,
                 tok_column = 1\<rparr>,
                \<lparr>tok_type = EOF, tok_value = [], tok_line = 1, tok_column = length w + 1\<rparr>]"
proof -
  let ?L = "Lexer_new w"
  have start: "lexer_ok ?L" "code ?L = [] @ w @ []" "position ?L = length ([] :: string)"
    by (simp_all add: lexer_ok_new) (simp_all add: Lexer_new_def)
  obtain L' where tok: "getNextToken ?L =
      Inr (\<lparr>tok_type = spec_word_type w, tok_value = spec_word_value w, tok_line = line L',
            tok_column = column ?L\<rparr>, L')"
    and ok: "lexer_ok L'" and code: "code L' = code ?L"
    and pos: "position L' = length ([] :: string) + length w"
    and scan: "L' = snd (scanWhile isIdentChar [] ?L)"
    using getNextToken_identifier [OF start assms] by auto
  have nl: "newline \<notin> set w"
    using assms(3) isIdentChar_not_newline by blast
  have lc: "line L' = line ?L \<and> column L' = column ?L + length w"
    unfolding scan using start assms(3) nl
    by (intro scanWhile_same_line [of ?L "[]" w "[]"]) simp_all
  have lc1: "line L' = 1" "column L' = length w + 1" "column ?L = 1"
    using lc by (simp_all add: Lexer_new_def)
  have "tokenize w =
      Inr [\<lparr>tok_type = spec_word_type w, tok_value = spec_word_value w, tok_line = line L',
            tok_column = column ?L\<rparr>,
           \<lparr>tok_type = EOF, tok_value = [], tok_line = line L', tok_column = column L'\<rparr>]"
    using tok ok code pos by (intro tokenize_single) (simp_all add: spec_word_type_not_EOF Lexer_new_def)
  then show ?thesis by (simp add: lc1)
qed

lemma tokenize_string_literal:
  assumes "q = quote1 \<or> q = quote2" "q \<notin> set s"
  shows "\<exists>l c. tokenize (q # s @ [q]) =
           Inr [\<lparr>tok_type = STRING, tok_value = s, tok_line = l, tok_column = 1\<rparr>,
                \<lparr>tok_type = EOF, tok_value = [], tok_line = l, tok_column = c\<rparr>]"
proof -
  let ?L = "Lexer_new (q # s @ [q])"
  have start: "lexer_ok ?L" "code ?L = [] @ q # s @ q # []" "position ?L = length ([] :: string)"
    by (simp_all add: lexer_ok_new) (simp_all add: Lexer_new_def)
  obtain L' where tok: "getNextToken ?L =
      Inr (\<lparr>tok_type = STRING, tok_value = s, tok_line = line L', tok_column = column ?L\<rparr>, L')"
    and ok: "lexer_ok L'" and code: "code L' = code ?L"
    and pos: "position L' = length ([] :: string) + length s + 2"
    using getNextToken_string [OF start assms] by auto
  have "tokenize (q # s @ [q]) =
      Inr [\<lparr>tok_type = STRING, tok_value = s, tok_line = line L', tok_column = column ?L\<rparr>,
           \<lparr>tok_type = EOF, tok_value = [], tok_line = line L', tok_column = column L'\<rparr>]"
    using tok ok code pos by (intro tokenize_single) (simp_all add: Lexer_new_def)
  then show ?thesis by (simp add: Lexer_new_def)
qed

text \<open>One turn of the loop of \<open>parseBinaryExpression\<close> at the additive level, on an
  operator token \<^verbatim>\<open>+\<close> or \<^verbatim>\<open>jama\<close>.\<close>

lemma additive_loop_step:
  assumes "current < length ts" "tok_type (ts ! current) = OPERATOR"
    "tok_value (ts ! current) = v" "v = ''+'' \<or> v = ''jama''"
  shows "parseBinaryExpression_loop (Suc n) ts nextMethod
           [''+'', ''-'', ''_'', ''jama'', ''manfi''] expr current =
         bind (nextMethod (current + 1)) (\<lambda>(right, cur2).
         bind (readToken (Parser_previous ts cur2)) (\<lambda>p.
           parseBinaryExpression_loop n ts nextMethod [''+'', ''-'', ''_'', ''jama'', ''manfi'']
             (BinaryExpression v expr right (tok_line p) (tok_column p)) cur2))"
  using assms by (auto simp: cursor_eval)

section \<open>The parser on \<^verbatim>\<open>jama\<close> and \<^verbatim>\<open>+\<close>\<close>

text \<open>Every parsing method gives, on a token list with \<^verbatim>\<open>jama\<close> written for \<^verbatim>\<open>+\<close>, the
  result it gives on the list itself with \<^verbatim>\<open>jama\<close> written for \<^verbatim>\<open>+\<close>. First the rules
  that carry \<open>jama_result\<close> through \<open>bind\<close>, then one lemma for each method, which
  assumes the property of the methods it calls at the bound below, then all methods
  together by induction on the bound.\<close>

lemma jama_result_Inr [simp]: "jama_result h (Inr x) r' = (r' = Inr (h x))"
  by (simp add: jama_result_def)

lemma jama_result_Inl_same [simp]: "jama_result h (Inl e) (Inl e)"
  by (simp add: jama_result_def jama_error_def)

lemma jama_result_bind:
  assumes "jama_result h1 m m'" "\<And>x. m = Inr x \<Longrightarrow> jama_result h2 (k x) (k' (h1 x))"
  shows "jama_result h2 (bind m k) (bind m' k')"
  using assms by (cases m) (auto simp: jama_result_def split: sum.splits)

lemma jama_result_bind_same:
  assumes "\<And>x. m = Inr x \<Longrightarrow> jama_result h (k x) (k' x)"
  shows "jama_result h (bind m k) (bind m k')"
  using assms by (cases m) (auto simp: jama_result_def jama_error_def split: sum.splits)

lemma jama_token_simps [simp]:
  "tok_type (jama_token t) = tok_type t" "tok_line (jama_token t) = tok_line t"
  "tok_column (jama_token t) = tok_column t"
  "tok_type t \<noteq> OPERATOR \<Longrightarrow> jama_token t = t"
  "tok_type t = OPERATOR \<Longrightarrow> tok_value (jama_token t) = jama_op (tok_value t)"
  by (simp_all add: jama_token_def)

text \<open>The cursor helpers in closed form.\<close>

lemma isAtEnd_eq:
  "isAtEnd ts c = (if c < length ts then Inr (tok_type (ts ! c) = EOF) else Inl TypeError)"
  by (simp add: cursor_eval)

lemma check_None_eq:
  "check ts c ty None =
     (if c < length ts then Inr (tok_type (ts ! c) \<noteq> EOF \<and> tok_type (ts ! c) = ty)
      else Inl TypeError)"
  by (simp add: cursor_eval)

lemma match1_eq:
  "match ts c [ty] =
     (if c < length ts then
        (if tok_type (ts ! c) \<noteq> EOF \<and> tok_type (ts ! c) = ty then Inr (True, c + 1)
         else Inr (False, c))
      else Inl TypeError)"
  by (simp add: cursor_eval)

lemma matchPrevious_eq:
  "matchPrevious ts c ty test =
     (if c < length ts then
        (if tok_type (ts ! c) \<noteq> EOF \<and> tok_type (ts ! c) = ty
         then Inr (test (tok_value (ts ! c)), c + 1)
         else Inr (False, c))
      else Inl TypeError)"
  by (simp add: matchPrevious_def match1_eq) (simp add: cursor_eval)

lemma consume_eq:
  "consume ts c ty message =
     (if c < length ts then
        (if tok_type (ts ! c) \<noteq> EOF \<and> tok_type (ts ! c) = ty then Inr (Some (ts ! c), c + 1)
         else Inl (SyntaxError message (tok_line (ts ! c)) (tok_column (ts ! c))))
      else Inl TypeError)"
  by (simp add: cursor_eval)

lemma check_Some_eq:
  "v \<noteq> [] \<Longrightarrow> check ts c ty (Some v) =
     (if c < length ts then
        Inr (tok_type (ts ! c) \<noteq> EOF \<and> tok_type (ts ! c) = ty \<and>
             toLowerCase (tok_value (ts ! c)) = toLowerCase v)
      else Inl TypeError)"
  by (simp add: cursor_eval)

lemma matchValue_eq:
  "v \<noteq> [] \<Longrightarrow> matchValue ts c ty v =
     (if c < length ts then
        (if tok_type (ts ! c) \<noteq> EOF \<and> tok_type (ts ! c) = ty \<and>
            toLowerCase (tok_value (ts ! c)) = toLowerCase v then Inr (True, c + 1)
         else Inr (False, c))
      else Inl TypeError)"
  by (simp add: matchValue_def check_Some_eq) (auto simp: cursor_eval)

lemma consumeValue_eq:
  "v \<noteq> [] \<Longrightarrow> consumeValue ts c ty v message =
     (if c < length ts then
        (if tok_type (ts ! c) \<noteq> EOF \<and> tok_type (ts ! c) = ty \<and>
            toLowerCase (tok_value (ts ! c)) = toLowerCase v then Inr (Some (ts ! c), c + 1)
         else Inl (SyntaxError message (tok_line (ts ! c)) (tok_column (ts ! c))))
      else Inl TypeError)"
  by (simp add: consumeValue_def check_Some_eq) (auto simp: cursor_eval)

text \<open>The cursor helpers on the token list with \<^verbatim>\<open>jama\<close> for \<^verbatim>\<open>+\<close>.\<close>

lemma jama_isAtEnd [simp]: "isAtEnd (map jama_token ts) c = isAtEnd ts c"
  by (simp add: isAtEnd_eq)

lemma jama_check_None [simp]: "check (map jama_token ts) c ty None = check ts c ty None"
  by (simp add: check_None_eq)

lemma jama_check_Some [simp]:
  "ty \<noteq> OPERATOR \<Longrightarrow> v \<noteq> [] \<Longrightarrow> check (map jama_token ts) c ty (Some v) = check ts c ty (Some v)"
  by (auto simp: check_Some_eq)

lemma jama_match1 [simp]: "match (map jama_token ts) c [ty] = match ts c [ty]"
  by (simp del: match.simps add: match1_eq)

lemma jama_matchValue [simp]:
  "ty \<noteq> OPERATOR \<Longrightarrow> v \<noteq> [] \<Longrightarrow> matchValue (map jama_token ts) c ty v = matchValue ts c ty v"
  by (auto simp: matchValue_eq)

lemma jama_consume [simp]:
  "ty \<noteq> OPERATOR \<Longrightarrow> consume (map jama_token ts) c ty message = consume ts c ty message"
  by (auto simp: consume_eq)

lemma jama_consumeValue [simp]:
  "ty \<noteq> OPERATOR \<Longrightarrow> v \<noteq> [] \<Longrightarrow>
   consumeValue (map jama_token ts) c ty v message = consumeValue ts c ty v message"
  by (auto simp: consumeValue_eq)

lemma jama_matchPrevious_other [simp]:
  "ty \<noteq> OPERATOR \<Longrightarrow>
   matchPrevious (map jama_token ts) c ty test = matchPrevious ts c ty test"
  by (auto simp: matchPrevious_eq)

lemma jama_matchPrevious_operator:
  "test ''jama'' = test ''+'' \<Longrightarrow>
   matchPrevious (map jama_token ts) c OPERATOR test = matchPrevious ts c OPERATOR test"
  by (auto simp: matchPrevious_eq jama_op_def)

text \<open>What a successful \<open>match\<close> says of the token before the cursor.\<close>

lemma match1_previous:
  "match ts c [ty] = Inr (True, c') \<Longrightarrow>
     c' = c + 1 \<and> readToken (Parser_previous ts c') = Inr (ts ! c) \<and>
     readToken (Parser_previous (map jama_token ts) c') = Inr (jama_token (ts ! c)) \<and>
     tok_type (ts ! c) = ty"
  by (auto simp del: match.simps simp: match1_eq cursor_eval split: if_splits)

lemma matchPrevious_previous:
  "matchPrevious ts c ty test = Inr (True, c') \<Longrightarrow>
     c' = c + 1 \<and> readToken (Parser_previous ts c') = Inr (ts ! c) \<and>
     readToken (Parser_previous (map jama_token ts) c') = Inr (jama_token (ts ! c)) \<and>
     tok_type (ts ! c) = ty"
  by (auto simp: matchPrevious_eq cursor_eval split: if_splits)

lemma jama_result_if:
  "(b \<Longrightarrow> jama_result h p p') \<Longrightarrow> (\<not> b \<Longrightarrow> jama_result h q q') \<Longrightarrow>
   jama_result h (if b then p else q) (if b then p' else q')"
  by simp

lemma functionParams_jama [simp]:
  "functionParams n (map jama_token ts) ps c = functionParams n ts ps c"
  by (induction n arbitrary: ps c) (auto simp: bind_def split: sum.splits prod.splits)

lemma readPrevious_cases:
  obtains (undef) "readToken (Parser_previous ts c) = Inl TypeError"
      "readToken (Parser_previous (map jama_token ts) c) = Inl TypeError"
    | (tok) t where "readToken (Parser_previous ts c) = Inr t"
      "readToken (Parser_previous (map jama_token ts) c) = Inr (jama_token t)"
  by (cases "readToken (Parser_previous ts c)") (auto simp: cursor_eval split: if_splits)

lemma jama_result_previous:
  assumes "\<And>t. readToken (Parser_previous ts c) = Inr t \<Longrightarrow> jama_result h (k t) (k' (jama_token t))"
  shows "jama_result h (bind (readToken (Parser_previous ts c)) k)
           (bind (readToken (Parser_previous (map jama_token ts) c)) k')"
  using assms by (cases rule: readPrevious_cases [of ts c]) auto

lemma jama_result_peek:
  assumes "\<And>t. readToken (Parser_peek ts c) = Inr t \<Longrightarrow> jama_result h (k t) (k' (jama_token t))"
  shows "jama_result h (bind (readToken (Parser_peek ts c)) k)
           (bind (readToken (Parser_peek (map jama_token ts) c)) k')"
  using assms by (cases "c < length ts") (auto simp: cursor_eval)

lemma parseBinaryExpression_loop_jama:
  assumes nxt: "\<And>c. jama_result (apfst jama_expr) (nextMethod c) (nextMethod' c)"
    and ops: "(''jama'' \<in> set ops) = (''+'' \<in> set ops)"
  shows "jama_result (apfst jama_expr)
           (parseBinaryExpression_loop n ts nextMethod ops e c)
           (parseBinaryExpression_loop n (map jama_token ts) nextMethod' ops (jama_expr e) c)"
proof (induction n arbitrary: e c)
  case 0
  show ?case by simp
next
  case (Suc n)
  have mp: "matchPrevious (map jama_token ts) c OPERATOR (\<lambda>v. v \<in> set ops) =
            matchPrevious ts c OPERATOR (\<lambda>v. v \<in> set ops)"
    using ops by (intro jama_matchPrevious_operator)
  show ?case
    unfolding parseBinaryExpression_loop.simps mp
    apply (rule jama_result_bind_same)
    apply (clarsimp split del: if_split)
    apply (rule jama_result_if)
     apply (rule jama_result_previous)
     apply (rule jama_result_bind [OF nxt])
     apply (clarsimp split del: if_split)
     apply (rule jama_result_previous)
    subgoal for a b t aa ba ta
      using Suc.IH [of "BinaryExpression (tok_value t) e aa (tok_line ta) (tok_column ta)" ba]
        matchPrevious_previous [of ts c OPERATOR _ b]
      by (auto simp: cursor_eval split: if_splits)
    apply simp
    done
qed

lemma parseBinaryExpression_jama:
  assumes nxt: "\<And>c. jama_result (apfst jama_expr) (nextMethod c) (nextMethod' c)"
    and ops: "(''jama'' \<in> set ops) = (''+'' \<in> set ops)"
  shows "jama_result (apfst jama_expr)
           (parseBinaryExpression n ts nextMethod ops c)
           (parseBinaryExpression n (map jama_token ts) nextMethod' ops c)"
  unfolding parseBinaryExpression_def
  apply (rule jama_result_bind [OF nxt])
  apply (clarsimp)
  apply (rule parseBinaryExpression_loop_jama [OF nxt ops])
  done

lemma jama_matchPrevious_tests [simp]:
  "matchPrevious (map jama_token ts) c OPERATOR (\<lambda>v. v = ''='') =
   matchPrevious ts c OPERATOR (\<lambda>v. v = ''='')"
  "matchPrevious (map jama_token ts) c OPERATOR (\<lambda>v. v \<in> set [''-'', ''manfi'']) =
   matchPrevious ts c OPERATOR (\<lambda>v. v \<in> set [''-'', ''manfi''])"
  "matchPrevious (map jama_token ts) c OPERATOR (\<lambda>v. v = ''-'' \<or> v = ''manfi'') =
   matchPrevious ts c OPERATOR (\<lambda>v. v = ''-'' \<or> v = ''manfi'')"
  by (rule jama_matchPrevious_operator, simp)+

lemma isIdentifier_jama [simp]: "isIdentifier (jama_expr e) = isIdentifier e"
  by (cases e) simp_all

lemma jama_result_unexpected:
  "jama_result h
     (Inl (SyntaxError (''Unexpected token '' @ [quote1] @ tok_value t @ [quote1])
             (tok_line t) (tok_column t)))
     (Inl (SyntaxError (''Unexpected token '' @ [quote1] @ tok_value (jama_token t) @ [quote1])
             (tok_line (jama_token t)) (tok_column (jama_token t))))"
  by (auto simp: jama_result_def jama_error_def jama_token_def unexpected_def jama_op_def)

lemmas jr = jama_result_bind_same jama_result_previous jama_result_peek jama_result_if
  jama_result_unexpected

lemma primary_jama:
  assumes "\<And>c. jama_result (apfst jama_expr) (arrayLiteral n ts c)
                   (arrayLiteral n (map jama_token ts) c)"
    and "\<And>c. jama_result (apfst jama_expr) (expression n ts c)
                   (expression n (map jama_token ts) c)"
  shows "jama_result (apfst jama_expr) (primary (Suc n) ts c)
           (primary (Suc n) (map jama_token ts) c)"
  unfolding primary.simps
  apply ((rule jr assms assms [THEN jama_result_bind]
         | clarsimp split del: if_split simp del: match.simps cong: if_cong
             dest!: match1_previous matchPrevious_previous)+)
  done

lemma declaration_stmt_jama:
  assumes "\<And>c. jama_result (apfst jama_stmt) (functionDeclaration n ts c)
       (functionDeclaration n (map jama_token ts) c)"
    and "\<And>c. jama_result (apfst jama_stmt) (statement n ts c)
       (statement n (map jama_token ts) c)"
  shows "jama_result (apfst jama_stmt) (declaration_stmt (Suc n) ts c)
       (declaration_stmt (Suc n) (map jama_token ts) c)"
  unfolding declaration_stmt.simps
  apply ((rule jr assms assms [THEN jama_result_bind] 
         | clarsimp split del: if_split simp del: match.simps cong: if_cong
             dest!: match1_previous matchPrevious_previous)+)
  done

lemma functionDeclaration_jama:
  assumes "\<And>c. jama_result (apfst jama_stmt) (blockStatement n ts c)
       (blockStatement n (map jama_token ts) c)"
  shows "jama_result (apfst jama_stmt) (functionDeclaration (Suc n) ts c)
       (functionDeclaration (Suc n) (map jama_token ts) c)"
  unfolding functionDeclaration.simps
  apply ((rule jr assms assms [THEN jama_result_bind] 
         | clarsimp split del: if_split simp del: match.simps cong: if_cong
             dest!: match1_previous matchPrevious_previous)+)
  done

lemma statement_jama:
  assumes "\<And>c. jama_result (apfst jama_stmt) (ifStatement n ts c)
       (ifStatement n (map jama_token ts) c)"
    and "\<And>c. jama_result (apfst jama_stmt) (whileStatement n ts c)
       (whileStatement n (map jama_token ts) c)"
    and "\<And>c. jama_result (apfst jama_stmt) (forStatement n ts c)
       (forStatement n (map jama_token ts) c)"
    and "\<And>c. jama_result (apfst jama_stmt) (returnStatement n ts c)
       (returnStatement n (map jama_token ts) c)"
    and "\<And>c. jama_result (apfst jama_stmt) (blockStatement n ts c)
       (blockStatement n (map jama_token ts) c)"
    and "\<And>c. jama_result (apfst jama_stmt) (expressionStatement n ts c)
       (expressionStatement n (map jama_token ts) c)"
  shows "jama_result (apfst jama_stmt) (statement (Suc n) ts c)
       (statement (Suc n) (map jama_token ts) c)"
  unfolding statement.simps
  apply ((rule jr assms assms [THEN jama_result_bind] 
         | clarsimp split del: if_split simp del: match.simps cong: if_cong
             dest!: match1_previous matchPrevious_previous)+)
  done

lemma ifStatement_jama:
  assumes "\<And>c. jama_result (apfst jama_expr) (expression n ts c)
       (expression n (map jama_token ts) c)"
    and "\<And>c. jama_result (apfst jama_stmt) (blockStatement n ts c)
       (blockStatement n (map jama_token ts) c)"
  shows "jama_result (apfst jama_stmt) (ifStatement (Suc n) ts c)
       (ifStatement (Suc n) (map jama_token ts) c)"
  unfolding ifStatement.simps
  apply ((rule jr assms assms [THEN jama_result_bind] jama_result_bind [where ?h1.0 = "apfst (map_option jama_stmt)"]
         | clarsimp split del: if_split simp del: match.simps cong: if_cong
             dest!: match1_previous matchPrevious_previous)+)
  done

lemma whileStatement_jama:
  assumes "\<And>c. jama_result (apfst jama_expr) (expression n ts c)
       (expression n (map jama_token ts) c)"
    and "\<And>c. jama_result (apfst jama_stmt) (blockStatement n ts c)
       (blockStatement n (map jama_token ts) c)"
  shows "jama_result (apfst jama_stmt) (whileStatement (Suc n) ts c)
       (whileStatement (Suc n) (map jama_token ts) c)"
  unfolding whileStatement.simps
  apply ((rule jr assms assms [THEN jama_result_bind] 
         | clarsimp split del: if_split simp del: match.simps cong: if_cong
             dest!: match1_previous matchPrevious_previous)+)
  done

lemma forStatement_jama:
  assumes "\<And>c. jama_result (apfst jama_expr) (expression n ts c)
       (expression n (map jama_token ts) c)"
    and "\<And>c. jama_result (apfst jama_stmt) (blockStatement n ts c)
       (blockStatement n (map jama_token ts) c)"
  shows "jama_result (apfst jama_stmt) (forStatement (Suc n) ts c)
       (forStatement (Suc n) (map jama_token ts) c)"
  unfolding forStatement.simps
  apply ((rule jr assms assms [THEN jama_result_bind] 
         | clarsimp split del: if_split simp del: match.simps cong: if_cong
             dest!: match1_previous matchPrevious_previous)+)
  done

lemma returnStatement_jama:
  assumes "\<And>c. jama_result (apfst jama_expr) (expression n ts c)
       (expression n (map jama_token ts) c)"
  shows "jama_result (apfst jama_stmt) (returnStatement (Suc n) ts c)
       (returnStatement (Suc n) (map jama_token ts) c)"
  unfolding returnStatement.simps
  apply ((rule jr assms assms [THEN jama_result_bind] jama_result_bind [where ?h1.0 = "apfst (map_option jama_expr)"]
         | clarsimp split del: if_split simp del: match.simps cong: if_cong
             dest!: match1_previous matchPrevious_previous)+)
  done

lemma blockStatement_jama:
  assumes "\<And>x x' c. x' = map jama_stmt x \<Longrightarrow>
       jama_result (apfst (map jama_stmt)) (blockStatement_loop n ts x c)
       (blockStatement_loop n (map jama_token ts) x' c)"
  shows "jama_result (apfst jama_stmt) (blockStatement (Suc n) ts c)
       (blockStatement (Suc n) (map jama_token ts) c)"
  unfolding blockStatement.simps
  apply ((rule jr assms assms [THEN jama_result_bind] 
         | clarsimp split del: if_split simp del: match.simps cong: if_cong
             dest!: match1_previous matchPrevious_previous)+)
  done

lemma blockStatement_loop_jama:
  assumes "\<And>c. jama_result (apfst jama_stmt) (declaration_stmt n ts c)
       (declaration_stmt n (map jama_token ts) c)"
    and "\<And>x x' c. x' = map jama_stmt x \<Longrightarrow>
       jama_result (apfst (map jama_stmt)) (blockStatement_loop n ts x c)
       (blockStatement_loop n (map jama_token ts) x' c)"
  shows "jama_result (apfst (map jama_stmt)) (blockStatement_loop (Suc n) ts x c)
       (blockStatement_loop (Suc n) (map jama_token ts) (map jama_stmt x) c)"
  unfolding blockStatement_loop.simps
  apply ((rule jr assms assms [THEN jama_result_bind] 
         | clarsimp split del: if_split simp del: match.simps cong: if_cong
             dest!: match1_previous matchPrevious_previous)+)
  done

lemma expressionStatement_jama:
  assumes "\<And>c. jama_result (apfst jama_expr) (expression n ts c)
       (expression n (map jama_token ts) c)"
  shows "jama_result (apfst jama_stmt) (expressionStatement (Suc n) ts c)
       (expressionStatement (Suc n) (map jama_token ts) c)"
  unfolding expressionStatement.simps
  apply ((rule jr assms assms [THEN jama_result_bind] 
         | clarsimp split del: if_split simp del: match.simps cong: if_cong
             dest!: match1_previous matchPrevious_previous)+)
  done

lemma expression_jama:
  assumes "\<And>c. jama_result (apfst jama_expr) (assignment n ts c)
       (assignment n (map jama_token ts) c)"
  shows "jama_result (apfst jama_expr) (expression (Suc n) ts c)
       (expression (Suc n) (map jama_token ts) c)"
  unfolding expression.simps
  apply ((rule jr assms assms [THEN jama_result_bind] 
         | clarsimp split del: if_split simp del: match.simps cong: if_cong
             dest!: match1_previous matchPrevious_previous)+)
  done

lemma assignment_jama:
  assumes "\<And>c. jama_result (apfst jama_expr) (equality n ts c)
       (equality n (map jama_token ts) c)"
    and "\<And>c. jama_result (apfst jama_expr) (assignment n ts c)
       (assignment n (map jama_token ts) c)"
  shows "jama_result (apfst jama_expr) (assignment (Suc n) ts c)
       (assignment (Suc n) (map jama_token ts) c)"
  unfolding assignment.simps
  apply ((rule jr assms assms [THEN jama_result_bind] 
         | clarsimp split del: if_split simp del: match.simps cong: if_cong
             dest!: match1_previous matchPrevious_previous)+)
  done

lemma equality_jama:
  assumes "\<And>c. jama_result (apfst jama_expr) (comparison n ts c)
       (comparison n (map jama_token ts) c)"
  shows "jama_result (apfst jama_expr) (equality (Suc n) ts c)
       (equality (Suc n) (map jama_token ts) c)"
  unfolding equality.simps by (rule parseBinaryExpression_jama [OF assms]) simp

lemma comparison_jama:
  assumes "\<And>c. jama_result (apfst jama_expr) (addition n ts c)
       (addition n (map jama_token ts) c)"
  shows "jama_result (apfst jama_expr) (comparison (Suc n) ts c)
       (comparison (Suc n) (map jama_token ts) c)"
  unfolding comparison.simps by (rule parseBinaryExpression_jama [OF assms]) simp

lemma addition_jama:
  assumes "\<And>c. jama_result (apfst jama_expr) (multiplication n ts c)
       (multiplication n (map jama_token ts) c)"
  shows "jama_result (apfst jama_expr) (addition (Suc n) ts c)
       (addition (Suc n) (map jama_token ts) c)"
  unfolding addition.simps by (rule parseBinaryExpression_jama [OF assms]) simp

lemma multiplication_jama:
  assumes "\<And>c. jama_result (apfst jama_expr) (unary n ts c)
       (unary n (map jama_token ts) c)"
  shows "jama_result (apfst jama_expr) (multiplication (Suc n) ts c)
       (multiplication (Suc n) (map jama_token ts) c)"
  unfolding multiplication.simps by (rule parseBinaryExpression_jama [OF assms]) simp

lemma unary_jama:
  assumes "\<And>c. jama_result (apfst jama_expr) (unary n ts c)
       (unary n (map jama_token ts) c)"
    and "\<And>c. jama_result (apfst jama_expr) (call n ts c)
       (call n (map jama_token ts) c)"
  shows "jama_result (apfst jama_expr) (unary (Suc n) ts c)
       (unary (Suc n) (map jama_token ts) c)"
  unfolding unary.simps
  apply ((rule jr assms assms [THEN jama_result_bind] 
         | clarsimp split del: if_split simp del: match.simps cong: if_cong
             dest!: match1_previous matchPrevious_previous)+)
  done

lemma call_jama:
  assumes "\<And>c. jama_result (apfst jama_expr) (primary n ts c)
       (primary n (map jama_token ts) c)"
    and "\<And>x x' c. x' = jama_expr x \<Longrightarrow>
       jama_result (apfst jama_expr) (call_loop n ts x c)
       (call_loop n (map jama_token ts) x' c)"
  shows "jama_result (apfst jama_expr) (call (Suc n) ts c)
       (call (Suc n) (map jama_token ts) c)"
  unfolding call.simps
  apply ((rule jr assms assms [THEN jama_result_bind] 
         | clarsimp split del: if_split simp del: match.simps cong: if_cong
             dest!: match1_previous matchPrevious_previous)+)
  done

lemma call_loop_jama:
  assumes "\<And>x x' c. x' = jama_expr x \<Longrightarrow>
       jama_result (apfst jama_expr) (finishCall n ts x c)
       (finishCall n (map jama_token ts) x' c)"
    and "\<And>x x' c. x' = jama_expr x \<Longrightarrow>
       jama_result (apfst jama_expr) (call_loop n ts x c)
       (call_loop n (map jama_token ts) x' c)"
  shows "jama_result (apfst jama_expr) (call_loop (Suc n) ts x c)
       (call_loop (Suc n) (map jama_token ts) (jama_expr x) c)"
  unfolding call_loop.simps
  apply ((rule jr assms assms [THEN jama_result_bind] 
         | clarsimp split del: if_split simp del: match.simps cong: if_cong
             dest!: match1_previous matchPrevious_previous)+)
  done

lemma finishCall_jama:
  assumes "\<And>x x' c. x' = map jama_expr x \<Longrightarrow>
       jama_result (apfst (map jama_expr)) (expressionList n ts x c)
       (expressionList n (map jama_token ts) x' c)"
  shows "jama_result (apfst jama_expr) (finishCall (Suc n) ts x c)
       (finishCall (Suc n) (map jama_token ts) (jama_expr x) c)"
  unfolding finishCall.simps
  apply ((rule jr assms assms [THEN jama_result_bind] jama_result_bind [where ?h1.0 = "apfst (map jama_expr)"]
         | clarsimp split del: if_split simp del: match.simps cong: if_cong
             dest!: match1_previous matchPrevious_previous)+)
  done

lemma expressionList_jama:
  assumes "\<And>c. jama_result (apfst jama_expr) (expression n ts c)
       (expression n (map jama_token ts) c)"
    and "\<And>x x' c. x' = map jama_expr x \<Longrightarrow>
       jama_result (apfst (map jama_expr)) (expressionList n ts x c)
       (expressionList n (map jama_token ts) x' c)"
  shows "jama_result (apfst (map jama_expr)) (expressionList (Suc n) ts x c)
       (expressionList (Suc n) (map jama_token ts) (map jama_expr x) c)"
  unfolding expressionList.simps
  apply ((rule jr assms assms [THEN jama_result_bind] 
         | clarsimp split del: if_split simp del: match.simps cong: if_cong
             dest!: match1_previous matchPrevious_previous)+)
  done

lemma arrayLiteral_jama:
  assumes "\<And>x x' c. x' = map jama_expr x \<Longrightarrow>
       jama_result (apfst (map jama_expr)) (expressionList n ts x c)
       (expressionList n (map jama_token ts) x' c)"
  shows "jama_result (apfst jama_expr) (arrayLiteral (Suc n) ts c)
       (arrayLiteral (Suc n) (map jama_token ts) c)"
  unfolding arrayLiteral.simps
  apply ((rule jr assms assms [THEN jama_result_bind] jama_result_bind [where ?h1.0 = "apfst (map jama_expr)"]
         | clarsimp split del: if_split simp del: match.simps cong: if_cong
             dest!: match1_previous matchPrevious_previous)+)
  done

lemma parser_jama:
  "(\<forall>c. jama_result (apfst jama_stmt) (declaration_stmt n ts c) (declaration_stmt n (map jama_token ts) c)) \<and>
   (\<forall>c. jama_result (apfst jama_stmt) (functionDeclaration n ts c) (functionDeclaration n (map jama_token ts) c)) \<and>
   (\<forall>c. jama_result (apfst jama_stmt) (statement n ts c) (statement n (map jama_token ts) c)) \<and>
   (\<forall>c. jama_result (apfst jama_stmt) (ifStatement n ts c) (ifStatement n (map jama_token ts) c)) \<and>
   (\<forall>c. jama_result (apfst jama_stmt) (whileStatement n ts c) (whileStatement n (map jama_token ts) c)) \<and>
   (\<forall>c. jama_result (apfst jama_stmt) (forStatement n ts c) (forStatement n (map jama_token ts) c)) \<and>
   (\<forall>c. jama_result (apfst jama_stmt) (returnStatement n ts c) (returnStatement n (map jama_token ts) c)) \<and>
   (\<forall>c. jama_result (apfst jama_stmt) (blockStatement n ts c) (blockStatement n (map jama_token ts) c)) \<and>
   (\<forall>x c. jama_result (apfst (map jama_stmt)) (blockStatement_loop n ts x c)
       (blockStatement_loop n (map jama_token ts) (map jama_stmt x) c)) \<and>
   (\<forall>c. jama_result (apfst jama_stmt) (expressionStatement n ts c) (expressionStatement n (map jama_token ts) c)) \<and>
   (\<forall>c. jama_result (apfst jama_expr) (expression n ts c) (expression n (map jama_token ts) c)) \<and>
   (\<forall>c. jama_result (apfst jama_expr) (assignment n ts c) (assignment n (map jama_token ts) c)) \<and>
   (\<forall>c. jama_result (apfst jama_expr) (equality n ts c) (equality n (map jama_token ts) c)) \<and>
   (\<forall>c. jama_result (apfst jama_expr) (comparison n ts c) (comparison n (map jama_token ts) c)) \<and>
   (\<forall>c. jama_result (apfst jama_expr) (addition n ts c) (addition n (map jama_token ts) c)) \<and>
   (\<forall>c. jama_result (apfst jama_expr) (multiplication n ts c) (multiplication n (map jama_token ts) c)) \<and>
   (\<forall>c. jama_result (apfst jama_expr) (unary n ts c) (unary n (map jama_token ts) c)) \<and>
   (\<forall>c. jama_result (apfst jama_expr) (call n ts c) (call n (map jama_token ts) c)) \<and>
   (\<forall>x c. jama_result (apfst jama_expr) (call_loop n ts x c)
       (call_loop n (map jama_token ts) (jama_expr x) c)) \<and>
   (\<forall>x c. jama_result (apfst jama_expr) (finishCall n ts x c)
       (finishCall n (map jama_token ts) (jama_expr x) c)) \<and>
   (\<forall>x c. jama_result (apfst (map jama_expr)) (expressionList n ts x c)
       (expressionList n (map jama_token ts) (map jama_expr x) c)) \<and>
   (\<forall>c. jama_result (apfst jama_expr) (primary n ts c) (primary n (map jama_token ts) c)) \<and>
   (\<forall>c. jama_result (apfst jama_expr) (arrayLiteral n ts c) (arrayLiteral n (map jama_token ts) c))"
proof (induction n)
  case 0
  show ?case by simp
next
  case (Suc n)
  show ?case
    apply (intro conjI allI)
    subgoal by (rule declaration_stmt_jama) (use Suc in simp_all)
    subgoal by (rule functionDeclaration_jama) (use Suc in simp_all)
    subgoal by (rule statement_jama) (use Suc in simp_all)
    subgoal by (rule ifStatement_jama) (use Suc in simp_all)
    subgoal by (rule whileStatement_jama) (use Suc in simp_all)
    subgoal by (rule forStatement_jama) (use Suc in simp_all)
    subgoal by (rule returnStatement_jama) (use Suc in simp_all)
    subgoal by (rule blockStatement_jama) (use Suc in simp_all)
    subgoal by (rule blockStatement_loop_jama) (use Suc in simp_all)
    subgoal by (rule expressionStatement_jama) (use Suc in simp_all)
    subgoal by (rule expression_jama) (use Suc in simp_all)
    subgoal by (rule assignment_jama) (use Suc in simp_all)
    subgoal by (rule equality_jama) (use Suc in simp_all)
    subgoal by (rule comparison_jama) (use Suc in simp_all)
    subgoal by (rule addition_jama) (use Suc in simp_all)
    subgoal by (rule multiplication_jama) (use Suc in simp_all)
    subgoal by (rule unary_jama) (use Suc in simp_all)
    subgoal by (rule call_jama) (use Suc in simp_all)
    subgoal by (rule call_loop_jama) (use Suc in simp_all)
    subgoal by (rule finishCall_jama) (use Suc in simp_all)
    subgoal by (rule expressionList_jama) (use Suc in simp_all)
    subgoal by (rule primary_jama) (use Suc in simp_all)
    subgoal by (rule arrayLiteral_jama) (use Suc in simp_all)
    done
qed

lemma parse_loop_jama:
  "jama_result (map jama_stmt) (parse_loop n ts body c)
     (parse_loop n (map jama_token ts) (map jama_stmt body) c)"
proof (induction n arbitrary: body c)
  case 0
  show ?case by simp
next
  case (Suc n)
  have decl: "jama_result (apfst jama_stmt) (declaration_stmt n ts c)
      (declaration_stmt n (map jama_token ts) c)" for c
    by (rule parser_jama [THEN conjunct1, rule_format])
  have loop: "body' = map jama_stmt body \<Longrightarrow>
      jama_result (map jama_stmt) (parse_loop n ts body c)
        (parse_loop n (map jama_token ts) body' c)" for body body' c
    using Suc by simp
  show ?case
    unfolding parse_loop.simps
    apply ((rule jr loop decl [THEN jama_result_bind]
           | clarsimp split del: if_split simp del: match.simps cong: if_cong)+)
    done
qed

lemma parse_jama: "jama_result jama_program (parse n ts) (parse n (map jama_token ts))"
  unfolding parse_def
  by (rule jama_result_bind [OF parse_loop_jama [of n ts "[]" 0, simplified]]) simp

lemma addition_step:
  assumes "multiplication (Suc n) ts c = Inr (e, c1)"
    "c1 < length ts" "tok_type (ts ! c1) = OPERATOR" "tok_value (ts ! c1) = v"
    "v = ''+'' \<or> v = ''jama''"
    "multiplication (Suc n) ts (c1 + 1) = Inr (r, c2)"
    "readToken (Parser_previous ts c2) = Inr p"
  shows "addition (Suc (Suc n)) ts c =
         parseBinaryExpression_loop n ts (multiplication (Suc n) ts)
           [''+'', ''-'', ''_'', ''jama'', ''manfi'']
           (BinaryExpression v e r (tok_line p) (tok_column p)) c2"
proof -
  have "addition (Suc (Suc n)) ts c =
        bind (multiplication (Suc n) ts c) (\<lambda>(expr, cur1).
          parseBinaryExpression_loop (Suc n) ts (multiplication (Suc n) ts)
            [''+'', ''-'', ''_'', ''jama'', ''manfi''] expr cur1)"
    by (simp only: addition.simps parseBinaryExpression_def)
  also have "\<dots> = parseBinaryExpression_loop (Suc n) ts (multiplication (Suc n) ts)
            [''+'', ''-'', ''_'', ''jama'', ''manfi''] e c1"
    by (simp only: assms(1) bind_Inr prod.case)
  also have "\<dots> = bind (multiplication (Suc n) ts (c1 + 1)) (\<lambda>(right, cur2).
         bind (readToken (Parser_previous ts cur2)) (\<lambda>p.
           parseBinaryExpression_loop n ts (multiplication (Suc n) ts)
             [''+'', ''-'', ''_'', ''jama'', ''manfi'']
             (BinaryExpression v e right (tok_line p) (tok_column p)) cur2))"
    by (rule additive_loop_step [OF assms(2-5)])
  also have "\<dots> = parseBinaryExpression_loop n ts (multiplication (Suc n) ts)
           [''+'', ''-'', ''_'', ''jama'', ''manfi'']
           (BinaryExpression v e r (tok_line p) (tok_column p)) c2"
    by (simp only: assms(6,7) bind_Inr prod.case)
  finally show ?thesis .
qed

section \<open>The parser against its specification\<close>

text \<open>
  \<^bold>\<open>C1.\<close> The specification states: an expression that mixes binary operators of different precedence
  levels parses to one expression nested by precedence, and the statement \<^verbatim>\<open>5 + 3\<close> to
  one expression statement holding the binary \<^verbatim>\<open>+\<close> of 5 and 3. The parser does
  otherwise. The loop of \<open>parseBinaryExpression\<close> tests
  \<^verbatim>\<open>this.match(TokenType.OPERATOR) && operators.includes(this.previous().value)\<close>, and
  \<open>match\<close> has moved past the operator before its value is compared; the multiplicative
  level runs first and so swallows every operator that is not its own. For every depth
  bound from 20 on, \<^verbatim>\<open>5 + 3\<close> parses to two expression statements, \<^verbatim>\<open>5\<close> and
  \<^verbatim>\<open>3\<close>; \<^verbatim>\<open>1 + 2 * 3\<close> to the statements \<^verbatim>\<open>1\<close> and \<^verbatim>\<open>2 * 3\<close>; and
  \<^verbatim>\<open>x == y + z\<close> to three statements.
\<close>

theorem parse_mixed_precedence_splits:
  "bind (tokenize ''5 + 3'') (parse (n + 20)) =
     Inr (Program
       [ExpressionStatement (NumericLiteral (Finite 5) 1 1) 1 1,
        ExpressionStatement (NumericLiteral (Finite 3) 1 5) 1 5] 1 1) \<and>
   bind (tokenize ''1 + 2 * 3'') (parse (n + 20)) =
     Inr (Program
       [ExpressionStatement (NumericLiteral (Finite 1) 1 1) 1 1,
        ExpressionStatement
          (BinaryExpression ''*'' (NumericLiteral (Finite 2) 1 5)
             (NumericLiteral (Finite 3) 1 9) 1 9) 1 5] 1 1) \<and>
   bind (tokenize ''x == y + z'') (parse (n + 20)) =
     Inr (Program
       [ExpressionStatement (Identifier ''x'' 1 1) 1 1,
        ExpressionStatement (Identifier ''y'' 1 6) 1 6,
        ExpressionStatement (Identifier ''z'' 1 10) 1 10] 1 1)"
  by (simp add: lexer_eval cursor_eval fuel_numeral)

text \<open>
  \<^bold>\<open>C2.\<close> The specification states: running the one-statement program \<^verbatim>\<open>olika("Salam" _ "Ji")\<close>
  succeeds and leaves exactly \<^verbatim>\<open>SalamJi\<close> and a newline in the output. The run fails
  before the interpreter is reached, whatever the interpreter does: the lexer makes
  \<^verbatim>\<open>olika\<close> a keyword token, and neither \<open>statement\<close> nor \<open>primary\<close> has a case for
  that keyword, so \<open>primary\<close> throws \<^verbatim>\<open>Unexpected token 'olika'\<close> at line 1, column 1,
  and the run returns that error with empty output.
\<close>

theorem run_olika_fails:
  "runPashtoPlusPlus interpret (n + 20) salam_ji =
     \<lparr>run_output = [],
      run_error =
        Some (SyntaxError (''Unexpected token '' @ [quote1] @ ''olika'' @ [quote1]) 1 1)\<rparr>"
  by (simp add: runPashtoPlusPlus_def salam_ji_def lexer_eval cursor_eval fuel_numeral)

text \<open>
  \<^bold>\<open>C3.\<close> The specification states: every function declaration \<^verbatim>\<open>opejana name(param, ...) { block }\<close>
  with a well-formed body parses to a function-declaration node, also with one or more
  parameters. With parameters it does not: the loop over the parameters ends on
  \<^verbatim>\<open>this.match(TokenType.PUNCTUATION) && this.previous().value === ','\<close>, which has
  already moved past the closing parenthesis when the comparison fails, and the
  \<open>consume\<close> calls after it accept any punctuation. \<^verbatim>\<open>opejana jor(a, b) { raka a + b }\<close>
  fails at \<^verbatim>\<open>raka\<close> (line 1, column 21), \<^verbatim>\<open>opejana f(a) { }\<close> fails at the end of the
  input, and \<^verbatim>\<open>opejana f() { }\<close>, which has no parameter, parses.
\<close>

theorem parse_function_with_parameters_fails:
  "bind (tokenize ''opejana jor(a, b) { raka a + b }'') (parse (n + 20)) =
     Inl (SyntaxError ''{'' 1 21) \<and>
   bind (tokenize ''opejana f(a) { }'') (parse (n + 20)) = Inl (SyntaxError ''}'' 1 17) \<and>
   bind (tokenize ''opejana f() { }'') (parse (n + 20)) =
     Inr (Program [FunctionDeclaration ''f'' [] (BlockStatement [] 1 13) 1 1] 1 1)"
  by (simp add: lexer_eval cursor_eval fuel_numeral)

text \<open>
  \<^bold>\<open>C4.\<close> The specification states: where \<^verbatim>\<open>=\<close> follows a bare identifier, as in \<^verbatim>\<open>x = 5\<close>, the
  parser yields an assignment node (right-associative in \<^verbatim>\<open>x = y = 5\<close>), and where it
  follows another expression, as in \<^verbatim>\<open>5 = 3\<close>, parsing fails. Neither happens: the
  \<^verbatim>\<open>=\<close> is an operator token, and the multiplicative level of
  \<open>parseBinaryExpression\<close> has moved past it before \<open>assignment\<close> looks for it.
  \<^verbatim>\<open>x = 5\<close> parses to the two expression statements \<^verbatim>\<open>x\<close> and \<^verbatim>\<open>5\<close>,
  \<^verbatim>\<open>x = y = 5\<close> to three, and \<^verbatim>\<open>5 = 3\<close> parses without an error.
\<close>

theorem parse_assignment_splits:
  "bind (tokenize ''x = 5'') (parse (n + 20)) =
     Inr (Program
       [ExpressionStatement (Identifier ''x'' 1 1) 1 1,
        ExpressionStatement (NumericLiteral (Finite 5) 1 5) 1 5] 1 1) \<and>
   bind (tokenize ''x = y = 5'') (parse (n + 20)) =
     Inr (Program
       [ExpressionStatement (Identifier ''x'' 1 1) 1 1,
        ExpressionStatement (Identifier ''y'' 1 5) 1 5,
        ExpressionStatement (NumericLiteral (Finite 5) 1 9) 1 9] 1 1) \<and>
   bind (tokenize ''5 = 3'') (parse (n + 20)) =
     Inr (Program
       [ExpressionStatement (NumericLiteral (Finite 5) 1 1) 1 1,
        ExpressionStatement (NumericLiteral (Finite 3) 1 5) 1 5] 1 1)"
  by (simp add: lexer_eval cursor_eval fuel_numeral)

text \<open>
  \<^bold>\<open>C5.\<close> The specification states: a trailing \<^verbatim>\<open>;\<close> after a return or an expression statement is
  optional, adding or removing it never changes whether a program parses, and a block
  whose last statement has none, as \<^verbatim>\<open>ko (rishtia) { 5 }\<close> or \<^verbatim>\<open>opejana f() { raka }\<close>,
  still parses. The optional semicolon is read by
  \<^verbatim>\<open>this.match(TokenType.PUNCTUATION) && this.previous().value === ';'\<close>, which moves
  past the closing brace when there is no semicolon. \<^verbatim>\<open>opejana f() { raka }\<close> fails at
  the end of the input, and the same declaration with \<^verbatim>\<open>raka;\<close> parses.
  \<^verbatim>\<open>ko (rishtia) { 5 }\<close> fails too, but before its block is read: the test for
  \<^verbatim>\<open>(\<close> in \<open>call\<close>, which has the same form, moves past the \<^verbatim>\<open>)\<close> of the condition,
  the \<open>consume\<close> for \<^verbatim>\<open>)\<close> takes the \<^verbatim>\<open>{\<close>, and the \<open>consume\<close> for \<^verbatim>\<open>{\<close> throws
  at \<^verbatim>\<open>5\<close> (line 1, column 16).
\<close>

theorem parse_trailing_semicolon_matters:
  "bind (tokenize ''opejana f() { raka }'') (parse (n + 20)) = Inl (SyntaxError ''}'' 1 21) \<and>
   bind (tokenize ''opejana f() { raka; }'') (parse (n + 20)) =
     Inr (Program
       [FunctionDeclaration ''f'' [] (BlockStatement [ReturnStatement None 1 15] 1 13) 1 1]
       1 1) \<and>
   bind (tokenize ''ko (rishtia) { 5 }'') (parse (n + 20)) = Inl (SyntaxError ''{'' 1 16)"
  by (simp add: lexer_eval cursor_eval fuel_numeral)

text \<open>
  \<^bold>\<open>C6.\<close> The specification states: parsing fails with a SyntaxError that carries the line and column
  of the offending token at the first structural violation, in particular when a
  required punctuation character is replaced by another one, as in
  \<^verbatim>\<open>ko (rishtia] { }\<close>. \<open>consume\<close> compares the token type only (its sibling
  \<open>consumeValue\<close> compares the value too), so any punctuation stands for the required
  one: \<^verbatim>\<open>opejana f[) { }\<close> parses to a function declaration. \<^verbatim>\<open>ko (rishtia] { }\<close>
  does fail, but at the end of the input (column 17) and not at the \<^verbatim>\<open>]\<close> (column 12),
  and exactly as the well-formed \<^verbatim>\<open>ko (rishtia) { }\<close> fails.
\<close>

theorem parse_accepts_wrong_punctuation:
  "bind (tokenize ''opejana f[) { }'') (parse (n + 20)) =
     Inr (Program [FunctionDeclaration ''f'' [] (BlockStatement [] 1 13) 1 1] 1 1) \<and>
   bind (tokenize ''ko (rishtia] { }'') (parse (n + 20)) = Inl (SyntaxError ''}'' 1 17) \<and>
   bind (tokenize ''ko (rishtia) { }'') (parse (n + 20)) = Inl (SyntaxError ''}'' 1 17)"
  by (simp add: lexer_eval cursor_eval fuel_numeral)

section \<open>The lexer against its specification\<close>

text \<open>
  \<^bold>\<open>C7.\<close> The specification states: every token carries the 1-based line and column of its first
  character, the first token of a new line has column 1, and a token that ends just
  before a newline reports the line it starts on. \<open>advance\<close> counts a line when it
  arrives at the newline character, not when it leaves it, and sets the column of that
  newline character to 1; the token methods read \<open>line\<close> after they have scanned the
  token. In the two-line text \<^verbatim>\<open>5\<close>, newline, \<^verbatim>\<open>3\<close> the token \<^verbatim>\<open>5\<close> of line 1 is
  reported on line 2, and the token \<^verbatim>\<open>3\<close>, first on line 2, in column 2. On one line,
  \<^verbatim>\<open>5 + 3\<close> has the columns 1, 3, 5 and the end of input on line 1, as stated.
\<close>

theorem tokenize_newline_positions:
  "tokenize (''5'' @ [newline] @ ''3'') =
     Inr [\<lparr>tok_type = NUMBER, tok_value = ''5'', tok_line = 2, tok_column = 1\<rparr>,
          \<lparr>tok_type = NUMBER, tok_value = ''3'', tok_line = 2, tok_column = 2\<rparr>,
          \<lparr>tok_type = EOF, tok_value = [], tok_line = 2, tok_column = 3\<rparr>] \<and>
   tokenize ''5 + 3'' =
     Inr [\<lparr>tok_type = NUMBER, tok_value = ''5'', tok_line = 1, tok_column = 1\<rparr>,
          \<lparr>tok_type = OPERATOR, tok_value = ''+'', tok_line = 1, tok_column = 3\<rparr>,
          \<lparr>tok_type = NUMBER, tok_value = ''3'', tok_line = 1, tok_column = 5\<rparr>,
          \<lparr>tok_type = EOF, tok_value = [], tok_line = 1, tok_column = 6\<rparr>]"
  by (simp add: lexer_eval)



text \<open>
  \<^bold>\<open>C9.\<close> A string literal may span lines. Wherever the lexer stands at an opening
  quote \<open>q\<close> (single or double) that is followed by characters \<open>s\<close> without \<open>q\<close> and
  then by \<open>q\<close>, \<open>getNextToken\<close> returns a string token whose value is \<open>s\<close>, character
  for character, and stands behind the closing quote. Nothing is asked of \<open>s\<close> but that
  \<open>q\<close> does not occur in it: newlines and the other quote character are kept, and
  there is no lexical error. A text that is such a literal alone tokenizes to the string
  token and the end of input.
\<close>

theorem string_literal_kept_verbatim:
  assumes "lexer_ok L" "code L = pre @ q # s @ q # rest" "position L = length pre"
    "q = quote1 \<or> q = quote2" "q \<notin> set s"
  shows "(\<exists>L'. getNextToken L =
            Inr (\<lparr>tok_type = STRING, tok_value = s, tok_line = line L',
                  tok_column = column L\<rparr>, L') \<and>
            lexer_ok L' \<and> code L' = code L \<and> position L' = length pre + length s + 2) \<and>
         (\<exists>l c. tokenize (q # s @ [q]) =
            Inr [\<lparr>tok_type = STRING, tok_value = s, tok_line = l, tok_column = 1\<rparr>,
                 \<lparr>tok_type = EOF, tok_value = [], tok_line = l, tok_column = c\<rparr>])"
  using getNextToken_string [OF assms] tokenize_string_literal [OF assms(4,5)] by blast

text \<open>The witness of C9: a single-quoted literal that holds a newline and a double
  quote, followed by more text.\<close>

theorem string_literal_witness:
  "\<exists>L'. getNextToken (Lexer_new (quote1 # (''a'' @ [newline, quote2] @ ''b'') @ quote1 # '' c'')) =
     Inr (\<lparr>tok_type = STRING, tok_value = ''a'' @ [newline, quote2] @ ''b'', tok_line = line L',
           tok_column = 1\<rparr>, L') \<and> position L' = 6"
proof -
  let ?s = "''a'' @ [newline, quote2] @ ''b''"
  let ?c = "quote1 # ?s @ quote1 # '' c''"
  have start: "lexer_ok (Lexer_new ?c)" "code (Lexer_new ?c) = [] @ quote1 # ?s @ quote1 # '' c''"
    "position (Lexer_new ?c) = length ([] :: string)"
    by (simp_all add: lexer_ok_new) (simp_all add: Lexer_new_def)
  have q: "quote1 = quote1 \<or> quote1 = quote2" "quote1 \<notin> set ?s"
    by (simp_all add: quote1_def quote2_def newline_def)
  have col: "column (Lexer_new ?c) = 1" by (simp add: Lexer_new_def)
  obtain L' where tok: "getNextToken (Lexer_new ?c) =
      Inr (\<lparr>tok_type = STRING, tok_value = ?s, tok_line = line L',
            tok_column = column (Lexer_new ?c)\<rparr>, L')"
    and pos: "position L' = length ([] :: string) + length ?s + 2"
    using string_literal_kept_verbatim [OF start q] by blast
  from pos have "position L' = 6" by simp
  with tok col show ?thesis by auto
qed

text \<open>
  \<^bold>\<open>C10.\<close> The eleven keywords are reserved words. An identifier-shaped lexeme
  whose lower-case form is a keyword is always a keyword token; and where the parser
  wants a primary expression, a keyword token other than \<^verbatim>\<open>rishtia\<close> and \<^verbatim>\<open>ghalat\<close>
  makes \<open>primary\<close> throw \<^verbatim>\<open>Unexpected token\<close> with the line and column of that
  token, and so does \<open>expression\<close> when it starts there (for every depth bound from 9
  on): such a token is never read as a variable, an assignment target or a call target.
\<close>

theorem keywords_reserved:
  "(\<forall>L pre w rest.
      lexer_ok L \<and> code L = pre @ w @ rest \<and> position L = length pre \<and> w \<noteq> [] \<and>
      isIdentStart (hd w) \<and> (\<forall>c\<in>set w. isIdentChar c) \<and>
      (rest = [] \<or> \<not> isIdentChar (hd rest)) \<and> toLowerCase w \<in> set KEYWORDS \<longrightarrow>
      (\<exists>L'. getNextToken L =
         Inr (\<lparr>tok_type = KEYWORD, tok_value = toLowerCase w, tok_line = line L',
               tok_column = column L\<rparr>, L'))) \<and>
   (\<forall>n ts current.
      current < length ts \<and> tok_type (ts ! current) = KEYWORD \<and>
      toLowerCase (tok_value (ts ! current)) \<noteq> ''rishtia'' \<and>
      toLowerCase (tok_value (ts ! current)) \<noteq> ''ghalat'' \<longrightarrow>
      primary (Suc n) ts current =
        Inl (SyntaxError (''Unexpected token '' @ [quote1] @ tok_value (ts ! current) @ [quote1])
               (tok_line (ts ! current)) (tok_column (ts ! current))) \<and>
      expression (n + 9) ts current =
        Inl (SyntaxError (''Unexpected token '' @ [quote1] @ tok_value (ts ! current) @ [quote1])
               (tok_line (ts ! current)) (tok_column (ts ! current)))) \<and>
   length KEYWORDS = 11 \<and> distinct KEYWORDS"
proof (intro conjI allI impI)
  fix L pre w rest
  assume a: "lexer_ok L \<and> code L = pre @ w @ rest \<and> position L = length pre \<and> w \<noteq> [] \<and>
      isIdentStart (hd w) \<and> (\<forall>c\<in>set w. isIdentChar c) \<and>
      (rest = [] \<or> \<not> isIdentChar (hd rest)) \<and> toLowerCase w \<in> set KEYWORDS"
  then obtain L' where "getNextToken L =
      Inr (\<lparr>tok_type = spec_word_type w, tok_value = spec_word_value w, tok_line = line L',
            tok_column = column L\<rparr>, L')"
    using getNextToken_identifier [of L pre w rest] by blast
  with a show "\<exists>L'. getNextToken L =
         Inr (\<lparr>tok_type = KEYWORD, tok_value = toLowerCase w, tok_line = line L',
               tok_column = column L\<rparr>, L')"
    by (auto simp: spec_word_type_def spec_word_value_def)
next
  fix n and ts :: "Token list" and current
  assume a: "current < length ts \<and> tok_type (ts ! current) = KEYWORD \<and>
      toLowerCase (tok_value (ts ! current)) \<noteq> ''rishtia'' \<and>
      toLowerCase (tok_value (ts ! current)) \<noteq> ''ghalat''"
  then show "primary (Suc n) ts current =
        Inl (SyntaxError (''Unexpected token '' @ [quote1] @ tok_value (ts ! current) @ [quote1])
               (tok_line (ts ! current)) (tok_column (ts ! current)))"
    by (simp add: cursor_eval toLowerCase_def toLowerChar_eval)
  from a show "expression (n + 9) ts current =
        Inl (SyntaxError (''Unexpected token '' @ [quote1] @ tok_value (ts ! current) @ [quote1])
               (tok_line (ts ! current)) (tok_column (ts ! current)))"
    by (simp add: cursor_eval fuel_numeral toLowerCase_def toLowerChar_eval)
next
  show "length KEYWORDS = 11" by (simp add: KEYWORDS_def)
  show "distinct KEYWORDS" by (simp add: KEYWORDS_def)
qed

text \<open>The witness of C10: the word \<^verbatim>\<open>Olika\<close> before a parenthesis, and its token
  where a primary expression is wanted.\<close>

theorem keywords_reserved_witness:
  "(\<exists>L'. getNextToken (Lexer_new ''Olika(1)'') =
      Inr (\<lparr>tok_type = KEYWORD, tok_value = ''olika'', tok_line = line L', tok_column = 1\<rparr>, L')) \<and>
   primary (Suc 0)
     [\<lparr>tok_type = KEYWORD, tok_value = ''olika'', tok_line = 1, tok_column = 1\<rparr>,
      \<lparr>tok_type = EOF, tok_value = [], tok_line = 1, tok_column = 6\<rparr>] 0 =
     Inl (SyntaxError (''Unexpected token '' @ [quote1] @ ''olika'' @ [quote1]) 1 1) \<and>
   expression 9
     [\<lparr>tok_type = KEYWORD, tok_value = ''olika'', tok_line = 1, tok_column = 1\<rparr>,
      \<lparr>tok_type = EOF, tok_value = [], tok_line = 1, tok_column = 6\<rparr>] 0 =
     Inl (SyntaxError (''Unexpected token '' @ [quote1] @ ''olika'' @ [quote1]) 1 1)"
proof -
  let ?L = "Lexer_new ''Olika(1)''"
  let ?ts = "[\<lparr>tok_type = KEYWORD, tok_value = ''olika'', tok_line = 1, tok_column = 1\<rparr>,
      \<lparr>tok_type = EOF, tok_value = [], tok_line = 1, tok_column = 6\<rparr>]"
  have lex: "lexer_ok ?L \<and> code ?L = [] @ ''Olika'' @ ''(1)'' \<and>
      position ?L = length ([] :: string) \<and> ''Olika'' \<noteq> [] \<and>
      isIdentStart (hd ''Olika'') \<and> (\<forall>c\<in>set ''Olika''. isIdentChar c) \<and>
      (''(1)'' = [] \<or> \<not> isIdentChar (hd ''(1)'')) \<and> toLowerCase ''Olika'' \<in> set KEYWORDS"
    by (simp add: lexer_ok_new)
       (simp add: Lexer_new_def isIdentStart_def isIdentChar_def isDigit_def toLowerCase_def
          toLowerChar_eval lower_table KEYWORDS_def)
  have low: "toLowerCase ''Olika'' = ''olika''" "column ?L = 1"
    by (simp_all add: toLowerCase_def toLowerChar_eval lower_table Lexer_new_def)
  have par: "(0::nat) < length ?ts \<and> tok_type (?ts ! 0) = KEYWORD \<and>
      toLowerCase (tok_value (?ts ! 0)) \<noteq> ''rishtia'' \<and>
      toLowerCase (tok_value (?ts ! 0)) \<noteq> ''ghalat''"
    by (simp add: toLowerCase_def toLowerChar_eval)
  have k: "\<exists>L'. getNextToken ?L =
         Inr (\<lparr>tok_type = KEYWORD, tok_value = toLowerCase ''Olika'', tok_line = line L',
               tok_column = column ?L\<rparr>, L')"
    using keywords_reserved lex by blast
  have p: "primary (Suc 0) ?ts 0 =
        Inl (SyntaxError (''Unexpected token '' @ [quote1] @ tok_value (?ts ! 0) @ [quote1])
               (tok_line (?ts ! 0)) (tok_column (?ts ! 0))) \<and>
      expression (0 + 9) ?ts 0 =
        Inl (SyntaxError (''Unexpected token '' @ [quote1] @ tok_value (?ts ! 0) @ [quote1])
               (tok_line (?ts ! 0)) (tok_column (?ts ! 0)))"
    using keywords_reserved par by blast
  from k p show ?thesis by (simp add: low)
qed

end
